theory Spec2Isabelle
  imports Main "HOL-Library.Char_ord" "HOL-Library.List_Lexorder" "HOL-Library.Multiset"
    "HOL-Library.Word"
begin

section \<open>Go strings, as byte lists\<close>

text \<open>
  A Go string is a byte sequence; it is modelled as a \<open>string\<close> (a \<open>char list\<close>, one
  \<open>char\<close> per byte). The functions of package \<open>strings\<close> that the repository calls are
  written out here with Go's results on ASCII bytes. Bytes from 0x80 on are passed through
  unchanged by the case mappings and are never white space (Go would decode them as UTF-8
  and consult its Unicode tables).
\<close>

definition hasPrefix :: "string \<Rightarrow> string \<Rightarrow> bool" where
  "hasPrefix s p = (take (length p) s = p)"

definition hasSuffix :: "string \<Rightarrow> string \<Rightarrow> bool" where
  "hasSuffix s p = (length p \<le> length s \<and> drop (length s - length p) s = p)"

definition trimPrefix :: "string \<Rightarrow> string \<Rightarrow> string" where
  "trimPrefix s p = (if hasPrefix s p then drop (length p) s else s)"

definition trimSuffix :: "string \<Rightarrow> string \<Rightarrow> string" where
  "trimSuffix s p = (if hasSuffix s p then take (length s - length p) s else s)"

text \<open>\<open>strings.Index\<close>: the byte offset of the first occurrence, \<open>None\<close> for Go's \<open>-1\<close>.\<close>

fun index :: "string \<Rightarrow> string \<Rightarrow> nat option" where
  "index [] p = (if p = [] then Some 0 else None)"
| "index (c # cs) p =
     (if hasPrefix (c # cs) p then Some 0
      else (case index cs p of None \<Rightarrow> None | Some i \<Rightarrow> Some (Suc i)))"

fun lastIndex :: "string \<Rightarrow> string \<Rightarrow> nat option" where
  "lastIndex [] p = (if p = [] then Some 0 else None)"
| "lastIndex (c # cs) p =
     (case lastIndex cs p of
        Some i \<Rightarrow> Some (Suc i)
      | None \<Rightarrow> (if hasPrefix (c # cs) p then Some 0 else None))"

definition contains :: "string \<Rightarrow> string \<Rightarrow> bool" where
  "contains s p = (index s p \<noteq> None)"

text \<open>
  \<open>strings.Split\<close> for a non-empty separator: the pieces between the non-overlapping
  occurrences found from the left; \<open>cur\<close> is the piece being read. The fuel is the length
  of the text, which no run exceeds.
\<close>

fun splitFrom :: "nat \<Rightarrow> string \<Rightarrow> string \<Rightarrow> string \<Rightarrow> string list" where
  "splitFrom fuel sep cur [] = [cur]"
| "splitFrom 0 sep cur (c # cs) = [cur @ c # cs]"
| "splitFrom (Suc fuel) sep cur (c # cs) =
     (if sep \<noteq> [] \<and> hasPrefix (c # cs) sep
      then cur # splitFrom fuel sep [] (drop (length sep) (c # cs))
      else splitFrom fuel sep (cur @ [c]) cs)"

definition split :: "string \<Rightarrow> string \<Rightarrow> string list" where
  "split s sep = splitFrom (length s) sep [] s"

text \<open>\<open>strings.SplitN(s, sep, 2)\<close>: cut at the first occurrence only.\<close>

definition splitN2 :: "string \<Rightarrow> string \<Rightarrow> string list" where
  "splitN2 s sep =
     (case index s sep of
        None \<Rightarrow> [s]
      | Some i \<Rightarrow> [take i s, drop (i + length sep) s])"

fun join :: "string list \<Rightarrow> string \<Rightarrow> string" where
  "join [] sep = []"
| "join [x] sep = x"
| "join (x # y # ys) sep = x @ sep @ join (y # ys) sep"

text \<open>\<open>strings.ReplaceAll\<close> for a non-empty \<open>old\<close>.\<close>

definition replaceAll :: "string \<Rightarrow> string \<Rightarrow> string \<Rightarrow> string" where
  "replaceAll s old new = join (split s old) new"

definition isSpace :: "char \<Rightarrow> bool" where
  "isSpace c = (c = CHR '' '' \<or> c = CHR 0x09 \<or> c = CHR 0x0A \<or> c = CHR 0x0B
                \<or> c = CHR 0x0C \<or> c = CHR 0x0D)"

definition trimLeftSet :: "string \<Rightarrow> (char \<Rightarrow> bool) \<Rightarrow> string" where
  "trimLeftSet s f = dropWhile f s"

definition trimRightSet :: "string \<Rightarrow> (char \<Rightarrow> bool) \<Rightarrow> string" where
  "trimRightSet s f = rev (dropWhile f (rev s))"

definition trimSpace :: "string \<Rightarrow> string" where
  "trimSpace s = trimRightSet (trimLeftSet s isSpace) isSpace"

text \<open>\<open>strings.Trim\<close> and \<open>strings.TrimRight\<close> with a cutset of ASCII bytes.\<close>

definition trim :: "string \<Rightarrow> string \<Rightarrow> string" where
  "trim s cutset = trimRightSet (trimLeftSet s (\<lambda>c. c \<in> set cutset)) (\<lambda>c. c \<in> set cutset)"

definition trimRight :: "string \<Rightarrow> string \<Rightarrow> string" where
  "trimRight s cutset = trimRightSet s (\<lambda>c. c \<in> set cutset)"

text \<open>\<open>strings.Fields\<close>: the maximal runs of bytes that are not white space.\<close>

fun fieldsFrom :: "string \<Rightarrow> string \<Rightarrow> string list" where
  "fieldsFrom cur [] = (if cur = [] then [] else [cur])"
| "fieldsFrom cur (c # cs) =
     (if isSpace c then (if cur = [] then fieldsFrom [] cs else cur # fieldsFrom [] cs)
      else fieldsFrom (cur @ [c]) cs)"

definition Fields :: "string \<Rightarrow> string list" where
  "Fields s = fieldsFrom [] s"

definition isUpper :: "char \<Rightarrow> bool" where
  "isUpper c = (CHR ''A'' \<le> c \<and> c \<le> CHR ''Z'')"

definition isLower :: "char \<Rightarrow> bool" where
  "isLower c = (CHR ''a'' \<le> c \<and> c \<le> CHR ''z'')"

definition toLowerChar :: "char \<Rightarrow> char" where
  "toLowerChar c = (if isUpper c then char_of (of_char c + (32::nat)) else c)"

definition toUpperChar :: "char \<Rightarrow> char" where
  "toUpperChar c = (if isLower c then char_of (of_char c - (32::nat)) else c)"

definition toLower :: "string \<Rightarrow> string" where
  "toLower s = map toLowerChar s"

definition toUpper :: "string \<Rightarrow> string" where
  "toUpper s = map toUpperChar s"

section \<open>Naming Normalizer\<close>

text \<open>\<open>pluralize\<close> of datara.go.\<close>

definition pluralize :: "string \<Rightarrow> string" where
  "pluralize s =
     (if s = [] then ''s''
      else if hasSuffix s ''s'' then s @ ''es''
      else if hasSuffix s ''y'' then take (length s - 1) s @ ''ies''
      else s @ ''s'')"

text \<open>
  \<open>toSnakeCase\<close> of datara.go. The loop carries the previous rune (0 before the first)
  and looks one byte ahead; \<open>i\<close> is the loop index.
\<close>

fun snakeLoop :: "nat \<Rightarrow> char \<Rightarrow> string \<Rightarrow> string" where
  "snakeLoop i prev [] = []"
| "snakeLoop i prev (r # rest) =
     (if 0 < i \<and> isUpper r \<and> (isLower prev \<or> (rest \<noteq> [] \<and> isLower (hd rest)))
      then ''_'' else [])
     @ toLowerChar r # snakeLoop (Suc i) r rest"

definition toSnakeCase :: "string \<Rightarrow> string" where
  "toSnakeCase s = snakeLoop 0 (CHR 0x00) s"

text \<open>
  \<open>toSnakeCase\<close> of the schema codec (unnamed/part_001): the special cases for \<open>ID\<close>, then
  an underscore before every upper-case ASCII letter but the first byte, then
  \<open>strings.ToLower\<close>.
\<close>

fun underscoreLoop :: "nat \<Rightarrow> string \<Rightarrow> string" where
  "underscoreLoop i [] = []"
| "underscoreLoop i (r # rest) =
     (if 0 < i \<and> CHR ''A'' \<le> r \<and> r \<le> CHR ''Z'' then ''_'' else [])
     @ r # underscoreLoop (Suc i) rest"

function toSnakeCase_codec :: "string \<Rightarrow> string" where
  "toSnakeCase_codec s =
     (if s = ''ID'' then ''id''
      else if hasSuffix s ''ID'' then toSnakeCase_codec (trimSuffix s ''ID'') @ ''_id''
      else toLower (underscoreLoop 0 s))"
  by pat_completeness auto
termination
  by (relation "measure length") (auto simp: hasSuffix_def trimSuffix_def)


section \<open>Diff Engine (internal/schema/executor.go)\<close>

text \<open>
  A Go \<open>map[string]string\<close> is an association list with one entry per key. A \<open>range\<close>
  over a map visits the entries in an order Go leaves unspecified: every \<open>range\<close> of the
  source takes its order from the parameter \<open>ord\<close>, told which loop is asking.
\<close>

type_synonym gomap = "(string \<times> string) list"

fun mapSet :: "('k \<times> 'v) list \<Rightarrow> 'k \<Rightarrow> 'v \<Rightarrow> ('k \<times> 'v) list" where
  "mapSet [] k v = [(k, v)]"
| "mapSet ((k', v') # m) k v = (if k' = k then (k, v) # m else (k', v') # mapSet m k v)"

definition mapHas :: "gomap \<Rightarrow> string \<Rightarrow> bool" where
  "mapHas m k = (map_of m k \<noteq> None)"

definition mapGet :: "gomap \<Rightarrow> string \<Rightarrow> string" where
  "mapGet m k = (case map_of m k of None \<Rightarrow> [] | Some v \<Rightarrow> v)"

datatype loopSite =
    DroppedTables | NewTables | ModifiedTables
  | DroppedColumns string | NewColumns string | ModifiedColumns string
  | ChecksumNames

type_synonym iteration = "loopSite \<Rightarrow> gomap \<Rightarrow> gomap"

definition iterationOrder :: "iteration \<Rightarrow> bool" where
  "iterationOrder ord = (\<forall>site m. mset (ord site m) = mset m)"

datatype panic = SliceBounds

text \<open>
  \<open>%q\<close> of package \<open>fmt\<close> (\<open>strconv.Quote\<close>) on ASCII bytes; bytes from 0x80 on are
  copied, as Go does for printable UTF-8.
\<close>

definition lowerhex :: "nat \<Rightarrow> char" where
  "lowerhex n = ''0123456789abcdef'' ! (n mod 16)"

definition quoteChar :: "char \<Rightarrow> string" where
  "quoteChar c =
     (if c = CHR 0x22 then [CHR 0x5C, CHR 0x22]
      else if c = CHR 0x5C then [CHR 0x5C, CHR 0x5C]
      else if c = CHR 0x07 then [CHR 0x5C, CHR ''a'']
      else if c = CHR 0x08 then [CHR 0x5C, CHR ''b'']
      else if c = CHR 0x0C then [CHR 0x5C, CHR ''f'']
      else if c = CHR 0x0A then [CHR 0x5C, CHR ''n'']
      else if c = CHR 0x0D then [CHR 0x5C, CHR ''r'']
      else if c = CHR 0x09 then [CHR 0x5C, CHR ''t'']
      else if c = CHR 0x0B then [CHR 0x5C, CHR ''v'']
      else if c < CHR 0x20 \<or> c = CHR 0x7F
        then [CHR 0x5C, CHR ''x'', lowerhex (of_char c div 16), lowerhex (of_char c)]
      else [c])"

definition quote :: "string \<Rightarrow> string" where
  "quote s = CHR 0x22 # concat (map quoteChar s) @ [CHR 0x22]"


fun extractTableNameParts :: "string list \<Rightarrow> string" where
  "extractTableNameParts (part # nxt # rest) =
     (if part = ''TABLE'' then trim nxt [CHR 0x22, CHR ''('', CHR '')'', CHR '' '']
      else extractTableNameParts (nxt # rest))"
| "extractTableNameParts _ = []"

definition extractTableName :: "string \<Rightarrow> string" where
  "extractTableName stmt = extractTableNameParts (split stmt '' '')"

definition parseTablesStep :: "gomap \<Rightarrow> string \<Rightarrow> gomap" where
  "parseTablesStep tables stmt0 =
     (let stmt = trimSpace stmt0 in
      if stmt = [] then tables
      else if hasPrefix stmt ''CREATE TABLE''
        then (let tableName = extractTableName stmt in
              if tableName \<noteq> [] then mapSet tables tableName stmt else tables)
      else tables)"

definition parseTables :: "string \<Rightarrow> gomap" where
  "parseTables schema = foldl parseTablesStep [] (split schema '';'')"

fun splitKeepingLoop :: "string list \<Rightarrow> string \<Rightarrow> int \<Rightarrow> string \<Rightarrow> string list" where
  "splitKeepingLoop result current parenCount [] =
     (if 0 < length current then result @ [current] else result)"
| "splitKeepingLoop result current parenCount (c # cs) =
     (if c = CHR ''('' then splitKeepingLoop result (current @ [c]) (parenCount + 1) cs
      else if c = CHR '')'' then splitKeepingLoop result (current @ [c]) (parenCount - 1) cs
      else if c = CHR '','' then
        (if parenCount = 0 then splitKeepingLoop (result @ [current]) [] parenCount cs
         else splitKeepingLoop result (current @ [c]) parenCount cs)
      else splitKeepingLoop result (current @ [c]) parenCount cs)"

definition splitKeepingParentheses :: "string \<Rightarrow> string list" where
  "splitKeepingParentheses s = splitKeepingLoop [] [] 0 s"

text \<open>\<open>s[lo:hi]\<close>: Go panics unless \<open>lo \<le> hi \<le> len(s)\<close>.\<close>

definition slice :: "string \<Rightarrow> nat \<Rightarrow> nat \<Rightarrow> panic + string" where
  "slice s lo hi =
     (if lo \<le> hi \<and> hi \<le> length s then Inr (take (hi - lo) (drop lo s)) else Inl SliceBounds)"

text \<open>The \<open>decimal(\<close> branch of \<open>parseColumns\<close>: the rewritten rest of the definition.\<close>

definition decimalRest :: "string \<Rightarrow> panic + string" where
  "decimalRest rest =
     (case (index rest ''('', lastIndex rest '')'') of
        (Some precisionStart, Some precisionEnd) \<Rightarrow>
          (case slice rest (precisionStart + 1) precisionEnd of
             Inl p \<Rightarrow> Inl p
           | Inr precision \<Rightarrow>
               (case split precision '','' of
                  [p0, s0] \<Rightarrow>
                    Inr (''decimal('' @ trimSpace p0 @ '','' @ trimSpace s0 @ '') ''
                         @ (if precisionEnd + 1 < length rest
                            then trimSpace (drop (precisionEnd + 1) rest) else []))
                | _ \<Rightarrow> Inr rest))
      | _ \<Rightarrow> Inr rest)"

definition plainColumn :: "gomap \<Rightarrow> string \<Rightarrow> gomap" where
  "plainColumn columns colDef =
     (case splitN2 colDef '' '' of
        [p0, p1] \<Rightarrow> mapSet columns (trim p0 [CHR 0x22]) colDef
      | _ \<Rightarrow> columns)"

definition parseColumnsStep :: "gomap \<Rightarrow> string \<Rightarrow> panic + gomap" where
  "parseColumnsStep columns colDef0 =
     (let colDef = trimSpace colDef0 in
      if colDef = [] \<or> hasPrefix colDef ''PRIMARY KEY'' then Inr columns
      else if contains colDef ''decimal('' then
        (case splitN2 colDef '' '' of
           [p0, p1] \<Rightarrow>
             (let colName = trim p0 [CHR 0x22] in
              case decimalRest p1 of
                Inl p \<Rightarrow> Inl p
              | Inr rest \<Rightarrow> Inr (mapSet columns colName (colName @ '' '' @ rest)))
         | _ \<Rightarrow> Inr (plainColumn columns colDef))
      else Inr (plainColumn columns colDef))"

fun parseColumnsLoop :: "gomap \<Rightarrow> string list \<Rightarrow> panic + gomap" where
  "parseColumnsLoop columns [] = Inr columns"
| "parseColumnsLoop columns (colDef # rest) =
     (case parseColumnsStep columns colDef of
        Inl p \<Rightarrow> Inl p
      | Inr columns' \<Rightarrow> parseColumnsLoop columns' rest)"

definition parseColumns :: "string \<Rightarrow> panic + gomap" where
  "parseColumns tableDef =
     (case (index tableDef ''('', lastIndex tableDef '')'') of
        (Some start, Some end') \<Rightarrow>
          (case slice tableDef (start + 1) end' of
             Inl p \<Rightarrow> Inl p
           | Inr body \<Rightarrow> parseColumnsLoop [] (splitKeepingParentheses body))
      | _ \<Rightarrow> Inr [])"

definition extractColumnType :: "string \<Rightarrow> string" where
  "extractColumnType colDef =
     (case splitN2 colDef '' '' of
        [p0, p1] \<Rightarrow> hd (split p1 '' '')
      | _ \<Rightarrow> [])"

definition cleanColumnDef :: "string \<Rightarrow> string" where
  "cleanColumnDef def0 =
     (let def = trimRight (trimSpace def0) '';'' in
      if contains def ''decimal('' then
        (case splitN2 def '' '' of
           [colName, rest] \<Rightarrow>
             colName @ '' ''
             @ replaceAll (replaceAll rest ''decimal('' ''decimal ('') '','' '', ''
         | _ \<Rightarrow> def)
      else def)"


text \<open>The three loops of \<open>compareTableDefinitions\<close>; each appends to both statement lists.\<close>

fun droppedColumnsLoop ::
  "string \<Rightarrow> gomap \<Rightarrow> gomap \<Rightarrow> string list \<times> string list \<Rightarrow> gomap
   \<Rightarrow> string list \<times> string list" where
  "droppedColumnsLoop tableName oldColumns newColumns acc [] = acc"
| "droppedColumnsLoop tableName oldColumns newColumns (ups, downs) ((colName, v) # rest) =
     (if \<not> mapHas newColumns colName
      then droppedColumnsLoop tableName oldColumns newColumns
             (ups @ [''ALTER TABLE '' @ quote tableName @ '' DROP COLUMN '' @ quote colName],
              downs @ [''ALTER TABLE '' @ quote tableName @ '' ADD COLUMN ''
                       @ mapGet oldColumns colName]) rest
      else droppedColumnsLoop tableName oldColumns newColumns (ups, downs) rest)"

fun newColumnsLoop ::
  "string \<Rightarrow> gomap \<Rightarrow> string list \<times> string list \<Rightarrow> gomap
   \<Rightarrow> string list \<times> string list" where
  "newColumnsLoop tableName oldColumns acc [] = acc"
| "newColumnsLoop tableName oldColumns (ups, downs) ((colName, colDef) # rest) =
     (if \<not> mapHas oldColumns colName
      then newColumnsLoop tableName oldColumns
             (ups @ [''ALTER TABLE '' @ quote tableName @ '' ADD COLUMN ''
                     @ cleanColumnDef colDef],
              downs @ [''ALTER TABLE '' @ quote tableName @ '' DROP COLUMN ''
                       @ quote colName]) rest
      else newColumnsLoop tableName oldColumns (ups, downs) rest)"

fun modifiedColumnsLoop ::
  "string \<Rightarrow> gomap \<Rightarrow> string list \<times> string list \<Rightarrow> gomap
   \<Rightarrow> string list \<times> string list" where
  "modifiedColumnsLoop tableName oldColumns acc [] = acc"
| "modifiedColumnsLoop tableName oldColumns (ups, downs) ((colName, newColDef) # rest) =
     (case map_of oldColumns colName of
        None \<Rightarrow> modifiedColumnsLoop tableName oldColumns (ups, downs) rest
      | Some oldColDef \<Rightarrow>
          (if oldColDef \<noteq> newColDef
           then modifiedColumnsLoop tableName oldColumns
                  (ups @ [''ALTER TABLE '' @ quote tableName @ '' ALTER COLUMN ''
                          @ quote colName @ '' TYPE '' @ extractColumnType newColDef],
                   downs @ [''ALTER TABLE '' @ quote tableName @ '' ALTER COLUMN ''
                            @ quote colName @ '' TYPE '' @ extractColumnType oldColDef]) rest
           else modifiedColumnsLoop tableName oldColumns (ups, downs) rest))"

definition compareTableDefinitions ::
  "iteration \<Rightarrow> string \<Rightarrow> string \<Rightarrow> string \<Rightarrow> panic + (string list \<times> string list)" where
  "compareTableDefinitions ord tableName oldDef newDef =
     (case parseColumns oldDef of
        Inl p \<Rightarrow> Inl p
      | Inr oldColumns \<Rightarrow>
          (case parseColumns newDef of
             Inl p \<Rightarrow> Inl p
           | Inr newColumns \<Rightarrow>
               Inr (modifiedColumnsLoop tableName oldColumns
                      (newColumnsLoop tableName oldColumns
                         (droppedColumnsLoop tableName oldColumns newColumns ([], [])
                            (ord (DroppedColumns tableName) oldColumns))
                         (ord (NewColumns tableName) newColumns))
                      (ord (ModifiedColumns tableName) newColumns))))"

text \<open>The three loops of \<open>generateSchemaDiff\<close>.\<close>

fun droppedTablesLoop ::
  "gomap \<Rightarrow> gomap \<Rightarrow> string list \<times> string list \<Rightarrow> gomap \<Rightarrow> string list \<times> string list" where
  "droppedTablesLoop oldTables newTables acc [] = acc"
| "droppedTablesLoop oldTables newTables (ups, downs) ((tableName, v) # rest) =
     (if \<not> mapHas newTables tableName
      then droppedTablesLoop oldTables newTables
             (ups @ [''DROP TABLE IF EXISTS '' @ quote tableName @ '' CASCADE''],
              downs @ [mapGet oldTables tableName]) rest
      else droppedTablesLoop oldTables newTables (ups, downs) rest)"

fun newTablesLoop ::
  "gomap \<Rightarrow> string list \<times> string list \<Rightarrow> gomap \<Rightarrow> string list \<times> string list" where
  "newTablesLoop oldTables acc [] = acc"
| "newTablesLoop oldTables (ups, downs) ((tableName, newTable) # rest) =
     (if \<not> mapHas oldTables tableName
      then newTablesLoop oldTables
             (ups @ [newTable],
              downs @ [''DROP TABLE IF EXISTS '' @ quote tableName @ '' CASCADE'']) rest
      else newTablesLoop oldTables (ups, downs) rest)"

fun modifiedTablesLoop ::
  "iteration \<Rightarrow> gomap \<Rightarrow> string list \<times> string list \<Rightarrow> gomap
   \<Rightarrow> panic + (string list \<times> string list)" where
  "modifiedTablesLoop ord oldTables acc [] = Inr acc"
| "modifiedTablesLoop ord oldTables (ups, downs) ((tableName, newTable) # rest) =
     (case map_of oldTables tableName of
        None \<Rightarrow> modifiedTablesLoop ord oldTables (ups, downs) rest
      | Some oldTable \<Rightarrow>
          (case compareTableDefinitions ord tableName oldTable newTable of
             Inl p \<Rightarrow> Inl p
           | Inr (upStmts, downStmts) \<Rightarrow>
               (if 0 < length upStmts
                then modifiedTablesLoop ord oldTables (ups @ upStmts, downs @ downStmts) rest
                else modifiedTablesLoop ord oldTables (ups, downs) rest)))"

text \<open>The statement lists \<open>generateSchemaDiff\<close> has built when its loops are done.\<close>

definition diffStatements ::
  "iteration \<Rightarrow> string \<Rightarrow> string \<Rightarrow> panic + (string list \<times> string list)" where
  "diffStatements ord oldSchema newSchema =
     (let oldTables = parseTables oldSchema; newTables = parseTables newSchema in
      modifiedTablesLoop ord oldTables
        (newTablesLoop oldTables
           (droppedTablesLoop oldTables newTables ([], []) (ord DroppedTables oldTables))
           (ord NewTables newTables))
        (ord ModifiedTables newTables))"

definition generateSchemaDiff :: "iteration \<Rightarrow> string \<Rightarrow> string \<Rightarrow> panic + (string \<times> string)" where
  "generateSchemaDiff ord oldSchema newSchema =
     (case diffStatements ord oldSchema newSchema of
        Inl p \<Rightarrow> Inl p
      | Inr (upStatements, downStatements) \<Rightarrow>
          (if length upStatements = 0 then Inr ([], [])
           else Inr (join upStatements ('';'' @ [CHR 0x0A]) @ '';'',
                     join downStatements ('';'' @ [CHR 0x0A]) @ '';'')))"


section \<open>Schema Model and SQL Codec (unnamed/part_001)\<close>

text \<open>
  The \<open>Default\<close> of a column is an \<open>interface{}\<close>: nil, or a value of a dynamic type. The
  code switches on string, bool, int and float64. A float64 is kept as its \<open>%f\<close> rendering
  and a value of any other type as its \<open>%v\<close> rendering, the only use the code makes of
  them.
\<close>

datatype dflt = DNil | DString string | DBool bool | DInt int | DFloat string | DOther string

record Column =
  Column_Name :: string
  Column_Type :: string
  Column_Length :: int
  Column_Nullable :: bool
  Column_Default :: dflt
  Column_AutoIncrement :: bool
  Column_IsPrimaryKey :: bool
  Column_IsUnique :: bool

record Index =
  Index_Name :: string
  Index_Columns :: "string list"
  Index_Type :: string
  Index_Unique :: bool

record PrimaryKey =
  PrimaryKey_Name :: string
  PrimaryKey_Columns :: "string list"

record ForeignKey =
  ForeignKey_Name :: string
  ForeignKey_Columns :: "string list"
  ForeignKey_ReferenceTable :: string
  ForeignKey_ReferenceColumns :: "string list"
  ForeignKey_OnDelete :: string
  ForeignKey_OnUpdate :: string

record Table =
  Table_Name :: string
  Table_Columns :: "Column list"
  Table_Indexes :: "Index list"
  Table_ForeignKeys :: "ForeignKey list"
  Table_PrimaryKey :: "PrimaryKey option"

record Schema =
  Tables :: "Table list"

text \<open>\<open>%d\<close> of package \<open>fmt\<close>.\<close>

definition digitChar :: "nat \<Rightarrow> char" where
  "digitChar n = ''0123456789'' ! (n mod 10)"

function showNat :: "nat \<Rightarrow> string" where
  "showNat n = (if n < 10 then [digitChar n] else showNat (n div 10) @ [digitChar n])"
  by pat_completeness auto
termination
  by (relation "measure id") auto

definition showInt :: "int \<Rightarrow> string" where
  "showInt i = (if i < 0 then ''-'' @ showNat (nat (- i)) else showNat (nat i))"

definition nl :: string where
  "nl = [CHR 0x0A]"

definition bq :: string where
  "bq = [CHR 0x60]"

definition sq :: string where
  "sq = [CHR 0x27]"

text \<open>The default clause of \<open>createTableSQL\<close> (and of \<open>formatColumnDefinition\<close>).\<close>

definition defaultSQL :: "dflt \<Rightarrow> string" where
  "defaultSQL d =
     (case d of
        DNil \<Rightarrow> []
      | DString v \<Rightarrow>
          (if v = ''CURRENT_TIMESTAMP'' \<or> contains v ''CURRENT_TIMESTAMP ON UPDATE''
           then '' DEFAULT '' @ v
           else '' DEFAULT '' @ sq @ replaceAll v sq (sq @ sq) @ sq)
      | DBool v \<Rightarrow> (if v then '' DEFAULT 1'' else '' DEFAULT 0'')
      | DInt v \<Rightarrow> '' DEFAULT '' @ showInt v
      | DFloat t \<Rightarrow> '' DEFAULT '' @ t
      | DOther t \<Rightarrow> [])"

definition columnSQL :: "Column \<Rightarrow> string" where
  "columnSQL column =
     ''  '' @ bq @ Column_Name column @ bq @ '' ''
     @ (if hasSuffix (Column_Type column) ''UNSIGNED''
        then trimSuffix (Column_Type column) '' UNSIGNED'' @ '' UNSIGNED''
        else Column_Type column)
     @ (if Column_Nullable column then '' NULL'' else '' NOT NULL'')
     @ (if Column_AutoIncrement column then '' AUTO_INCREMENT'' else [])
     @ defaultSQL (Column_Default column)"

fun columnsLoop :: "nat \<Rightarrow> nat \<Rightarrow> Column list \<Rightarrow> string" where
  "columnsLoop i n [] = []"
| "columnsLoop i n (column # rest) =
     columnSQL column @ (if int i < int n - 1 then '','' @ nl else [])
     @ columnsLoop (Suc i) n rest"

definition keyColumns :: "string list \<Rightarrow> string" where
  "keyColumns cols = ''('' @ bq @ join cols (bq @ '','' @ bq) @ bq @ '')''"

text \<open>
  The index loops share the set \<open>addedIndexes\<close>, keyed by the column names joined with an
  underscore; \<open>kw\<close> is \<open>UNIQUE KEY\<close> or \<open>KEY\<close>.
\<close>

fun indexesLoop :: "string \<Rightarrow> string \<times> string list \<Rightarrow> Index list \<Rightarrow> string \<times> string list" where
  "indexesLoop kw acc [] = acc"
| "indexesLoop kw (sql, addedIndexes) (ix # rest) =
     (let indexKey = join (Index_Columns ix) ''_'' in
      if indexKey \<notin> set addedIndexes
      then indexesLoop kw
             (sql @ '','' @ nl @ ''  '' @ kw @ '' '' @ bq @ Index_Name ix @ bq @ '' ''
                  @ keyColumns (Index_Columns ix),
              indexKey # addedIndexes) rest
      else indexesLoop kw (sql, addedIndexes) rest)"

definition foreignKeySQL :: "ForeignKey \<Rightarrow> string" where
  "foreignKeySQL fk =
     ''CONSTRAINT '' @ bq @ ForeignKey_Name fk @ bq @ '' FOREIGN KEY ''
     @ keyColumns (ForeignKey_Columns fk) @ '' REFERENCES '' @ bq @ ForeignKey_ReferenceTable fk
     @ bq @ '' '' @ keyColumns (ForeignKey_ReferenceColumns fk)
     @ (if ForeignKey_OnDelete fk \<noteq> [] then '' ON DELETE '' @ ForeignKey_OnDelete fk else [])
     @ (if ForeignKey_OnUpdate fk \<noteq> [] then '' ON UPDATE '' @ ForeignKey_OnUpdate fk else [])"

fun foreignKeysLoop :: "string \<times> string list \<Rightarrow> ForeignKey list \<Rightarrow> string \<times> string list" where
  "foreignKeysLoop acc [] = acc"
| "foreignKeysLoop (sql, addedFKs) (fk # rest) =
     (let fkKey = ForeignKey_ReferenceTable fk @ ''_'' @ join (ForeignKey_Columns fk) ''_'' in
      if fkKey \<notin> set addedFKs
      then foreignKeysLoop (sql @ '','' @ nl @ ''  '' @ foreignKeySQL fk, fkKey # addedFKs) rest
      else foreignKeysLoop (sql, addedFKs) rest)"

definition primaryKeySQL :: "PrimaryKey option \<Rightarrow> string" where
  "primaryKeySQL pk =
     (case pk of
        None \<Rightarrow> []
      | Some k \<Rightarrow>
          (if 0 < length (PrimaryKey_Columns k)
           then '','' @ nl @ ''  '' @ ''PRIMARY KEY '' @ keyColumns (PrimaryKey_Columns k)
           else []))"

definition createTableSQL :: "Table \<Rightarrow> string" where
  "createTableSQL table =
     (let header = ''CREATE TABLE '' @ bq @ Table_Name table @ bq @ '' ('' @ nl
            @ columnsLoop 0 (length (Table_Columns table)) (Table_Columns table)
            @ primaryKeySQL (Table_PrimaryKey table);
          uniqueIndexes = filter Index_Unique (Table_Indexes table);
          normalIndexes = filter (\<lambda>ix. \<not> Index_Unique ix) (Table_Indexes table);
          withUnique = indexesLoop ''UNIQUE KEY'' (header, []) uniqueIndexes;
          withNormal = indexesLoop ''KEY'' withUnique normalIndexes;
          withFKs = foreignKeysLoop (fst withNormal, []) (Table_ForeignKeys table)
      in fst withFKs @ nl
         @ '') ENGINE=InnoDB DEFAULT CHARSET=utf8mb4 COLLATE=utf8mb4_unicode_ci;'')"

definition dropTableSQL :: "Table \<Rightarrow> string" where
  "dropTableSQL table = ''DROP TABLE IF EXISTS '' @ bq @ Table_Name table @ bq @ '';''"

text \<open>\<open>ToDownSQL\<close>: the loop counts \<open>i\<close> down from \<open>len - 1\<close> to 0; \<open>k\<close> is \<open>i + 1\<close>.\<close>

fun toDownLoop :: "Table list \<Rightarrow> nat \<Rightarrow> string" where
  "toDownLoop tables 0 = []"
| "toDownLoop tables (Suc i) =
     (if int i < int (length tables) - 1 then nl else [])
     @ dropTableSQL (tables ! i) @ toDownLoop tables i"

definition ToDownSQL :: "Schema \<Rightarrow> string" where
  "ToDownSQL s = toDownLoop (Tables s) (length (Tables s))"

fun toSQLLoop :: "nat \<Rightarrow> Table list \<Rightarrow> string" where
  "toSQLLoop i [] = []"
| "toSQLLoop i (table # rest) =
     (if 0 < i then nl @ nl else []) @ createTableSQL table @ toSQLLoop (Suc i) rest"

definition ToSQL :: "Schema \<Rightarrow> string" where
  "ToSQL s =
     ''-- migrate:up'' @ nl @ nl @ toSQLLoop 0 (Tables s)
     @ nl @ nl @ ''-- migrate:down'' @ nl @ nl @ ToDownSQL s"






subsection \<open>Type Resolver: \<open>ParseSchema\<close>\<close>

text \<open>
  What \<open>ParseSchema\<close> reads of a model through package \<open>reflect\<close>: the name of the struct
  type and, for each field, its name and its type. \<open>TTime\<close> is \<open>time.Time\<close>; \<open>TOther\<close> is a
  type of any other kind (struct, slice, map, interface and so on).
\<close>

datatype goType =
    TBool | TInt | TInt8 | TInt16 | TInt32 | TInt64
  | TUint | TUint8 | TUint16 | TUint32 | TUint64
  | TFloat32 | TFloat64 | TString | TTime | TPtr goType | TOther

record StructField =
  Field_Name :: string
  Field_Type :: goType
  Field_Anonymous :: bool

record StructType =
  Struct_Name :: string
  Struct_Fields :: "StructField list"

text \<open>An argument of \<open>ParseSchema\<close>: a string, a struct, a pointer to a struct, or else.\<close>

datatype model = MString string | MStruct StructType | MPtr StructType | MOther

definition IsExported :: "string \<Rightarrow> bool" where
  "IsExported name = (name \<noteq> [] \<and> isUpper (hd name))"

definition emptyColumn :: Column where
  "emptyColumn =
     \<lparr>Column_Name = [], Column_Type = [], Column_Length = 0, Column_Nullable = False,
      Column_Default = DNil, Column_AutoIncrement = False, Column_IsPrimaryKey = False,
      Column_IsUnique = False\<rparr>"

definition handleSpecialFields :: "string \<Rightarrow> Column option" where
  "handleSpecialFields name =
     (if name = ''id'' then
        Some (emptyColumn\<lparr>Column_Name := ''id'', Column_Type := ''BIGINT'',
                Column_AutoIncrement := True, Column_IsPrimaryKey := True,
                Column_Nullable := False\<rparr>)
      else if name = ''created_at'' then
        Some (emptyColumn\<lparr>Column_Name := ''created_at'', Column_Type := ''TIMESTAMP'',
                Column_Default := DString ''CURRENT_TIMESTAMP'', Column_Nullable := False\<rparr>)
      else if name = ''updated_at'' then
        Some (emptyColumn\<lparr>Column_Name := ''updated_at'', Column_Type := ''TIMESTAMP'',
                Column_Default := DString ''CURRENT_TIMESTAMP ON UPDATE CURRENT_TIMESTAMP'',
                Column_Nullable := False\<rparr>)
      else if name = ''deleted_at'' then
        Some (emptyColumn\<lparr>Column_Name := ''deleted_at'', Column_Type := ''TIMESTAMP'',
                Column_Nullable := True, Column_Default := DNil\<rparr>)
      else if name = ''last_login_at'' then
        Some (emptyColumn\<lparr>Column_Name := ''last_login_at'', Column_Type := ''TIMESTAMP'',
                Column_Nullable := True, Column_Default := DNil\<rparr>)
      else None)"

fun handleNumericType :: "goType \<Rightarrow> string \<times> dflt" where
  "handleNumericType TBool = (''TINYINT(1)'', DInt 0)"
| "handleNumericType TInt8 = (''TINYINT'', DNil)"
| "handleNumericType TInt16 = (''SMALLINT'', DNil)"
| "handleNumericType TInt = (''INT'', DNil)"
| "handleNumericType TInt32 = (''INT'', DNil)"
| "handleNumericType TInt64 = (''BIGINT'', DNil)"
| "handleNumericType TUint8 = (''TINYINT UNSIGNED'', DNil)"
| "handleNumericType TUint16 = (''SMALLINT UNSIGNED'', DNil)"
| "handleNumericType TUint = (''INT UNSIGNED'', DNil)"
| "handleNumericType TUint32 = (''INT UNSIGNED'', DNil)"
| "handleNumericType TUint64 = (''BIGINT UNSIGNED'', DNil)"
| "handleNumericType TFloat32 = (''FLOAT'', DNil)"
| "handleNumericType TFloat64 = (''DOUBLE'', DNil)"
| "handleNumericType _ = ([], DNil)"

text \<open>The result of \<open>handleStringType\<close>: type, unique, nullable, default.\<close>

definition handleStringType :: "string \<Rightarrow> string \<times> bool \<times> bool \<times> dflt" where
  "handleStringType name =
     (if name = ''email'' \<or> name = ''username'' then (''VARCHAR(255)'', True, False, DNil)
      else if name = ''password'' then (''VARCHAR(255)'', False, False, DNil)
      else if name = ''phone'' \<or> name = ''phone_number'' then (''VARCHAR(20)'', False, True, DNil)
      else if name = ''status'' \<or> name = ''role''
        then (''VARCHAR(50)'', False, False, DString ''user'')
      else if name = ''address'' \<or> name = ''bio'' then (''TEXT'', False, True, DNil)
      else if name = ''avatar'' \<or> name = ''website'' \<or> name = ''location''
        then (''VARCHAR(255)'', False, True, DNil)
      else if name = ''is_active'' \<or> name = ''is_verified''
        then (''TINYINT(1)'', False, False, DInt 1)
      else if hasSuffix name ''_id'' then (''BIGINT UNSIGNED'', False, False, DNil)
      else (''VARCHAR(255)'', False, False, DNil))"

definition isPtr :: "goType \<Rightarrow> bool" where
  "isPtr t = (case t of TPtr _ \<Rightarrow> True | _ \<Rightarrow> False)"

definition createColumn :: "string \<Rightarrow> goType \<Rightarrow> Column" where
  "createColumn name fieldType =
     emptyColumn\<lparr>Column_Name := toSnakeCase_codec name, Column_Nullable := isPtr fieldType\<rparr>"

definition setColumnType :: "Column \<Rightarrow> goType \<Rightarrow> Column" where
  "setColumnType column fieldType =
     (case handleSpecialFields (Column_Name column) of
        Some specialColumn \<Rightarrow> specialColumn
      | None \<Rightarrow>
          (let (sqlType, defaultVal) = handleNumericType fieldType in
           if sqlType \<noteq> [] then
             (if defaultVal \<noteq> DNil
              then column\<lparr>Column_Type := sqlType, Column_Default := defaultVal\<rparr>
              else column\<lparr>Column_Type := sqlType\<rparr>)
           else if fieldType = TString then
             (let (sqlType, isUnique, isNullable, defaultVal) =
                    handleStringType (Column_Name column);
                  c1 = column\<lparr>Column_Type := sqlType, Column_IsUnique := isUnique\<rparr>;
                  c2 = (if isNullable then c1\<lparr>Column_Nullable := True\<rparr> else c1)
              in if defaultVal \<noteq> DNil then c2\<lparr>Column_Default := defaultVal\<rparr> else c2)
           else if fieldType = TTime then
             column\<lparr>Column_Type := ''DATETIME'', Column_Nullable := True\<rparr>
           else column\<lparr>Column_Type := ''VARCHAR(255)''\<rparr>))"

definition newColumn :: "StructField \<Rightarrow> Column option" where
  "newColumn field =
     (if \<not> IsExported (Field_Name field) then None
      else Some (setColumnType (createColumn (Field_Name field) (Field_Type field))
                   (Field_Type field)))"

definition parseStructField :: "Table \<Rightarrow> StructField \<Rightarrow> Table" where
  "parseStructField table field =
     (if Field_Anonymous field then table
      else
        (case newColumn field of
           None \<Rightarrow> table
         | Some column \<Rightarrow>
             (let t1 = table\<lparr>Table_Columns := Table_Columns table @ [column]\<rparr>;
                  t2 = (if Column_IsPrimaryKey column
                        then t1\<lparr>Table_PrimaryKey :=
                                  Some \<lparr>PrimaryKey_Name = ''pk_'' @ Table_Name table,
                                        PrimaryKey_Columns = [Column_Name column]\<rparr>\<rparr>
                        else t1);
                  t3 = (if Column_IsUnique column
                        then t2\<lparr>Table_Indexes := Table_Indexes t2 @
                                  [\<lparr>Index_Name = ''idx_'' @ Table_Name table @ ''_''
                                                  @ Column_Name column @ ''_unique'',
                                    Index_Columns = [Column_Name column],
                                    Index_Type = ''BTREE'', Index_Unique = True\<rparr>]\<rparr>
                        else t2)
              in if hasSuffix (Column_Name column) ''_id''
                 then t3\<lparr>Table_ForeignKeys := Table_ForeignKeys t3 @
                           [\<lparr>ForeignKey_Name = ''fk_'' @ Table_Name table @ ''_''
                                                @ Column_Name column,
                             ForeignKey_Columns = [Column_Name column],
                             ForeignKey_ReferenceTable =
                               trimSuffix (Column_Name column) ''_id'' @ ''s'',
                             ForeignKey_ReferenceColumns = [''id''],
                             ForeignKey_OnDelete = ''RESTRICT'',
                             ForeignKey_OnUpdate = ''RESTRICT''\<rparr>],
                         Table_Indexes := Table_Indexes t3 @
                           [\<lparr>Index_Name = ''idx_'' @ Table_Name table @ ''_''
                                           @ Column_Name column,
                             Index_Columns = [Column_Name column],
                             Index_Type = ''BTREE'', Index_Unique = False\<rparr>]\<rparr>
                 else t3)))"

definition parseStruct :: "StructType \<Rightarrow> Table" where
  "parseStruct t =
     foldl parseStructField
       \<lparr>Table_Name = toSnakeCase_codec (Struct_Name t) @ ''s'', Table_Columns = [],
        Table_Indexes = [], Table_ForeignKeys = [], Table_PrimaryKey = None\<rparr>
       (Struct_Fields t)"

definition addRelationsTable :: "Table \<Rightarrow> Table" where
  "addRelationsTable table =
     table\<lparr>Table_Indexes := Table_Indexes table @
       map (\<lambda>fk. \<lparr>Index_Name = ''idx_'' @ Table_Name table @ ''_''
                                 @ join (ForeignKey_Columns fk) ''_'',
                   Index_Columns = ForeignKey_Columns fk,
                   Index_Type = ''BTREE'', Index_Unique = False\<rparr>)
           (Table_ForeignKeys table)\<rparr>"

definition addRelations :: "Schema \<Rightarrow> Schema" where
  "addRelations schema = schema\<lparr>Tables := map addRelationsTable (Tables schema)\<rparr>"

fun parseModel :: "model \<Rightarrow> Table list" where
  "parseModel (MString s) = []"
| "parseModel (MStruct t) = [parseStruct t]"
| "parseModel (MPtr t) = [parseStruct t]"
| "parseModel MOther = []"

definition ParseSchema :: "model list \<Rightarrow> Schema" where
  "ParseSchema models = addRelations \<lparr>Tables = concat (map parseModel models)\<rparr>"

subsection \<open>\<open>FromSQL\<close>\<close>

text \<open>The text between the first two backticks of \<open>s\<close>, when there are two.\<close>

definition firstQuoted :: "string \<Rightarrow> string option" where
  "firstQuoted s =
     (case index s bq of
        None \<Rightarrow> None
      | Some start \<Rightarrow>
          (case index (drop (start + 1) s) bq of
             None \<Rightarrow> None
           | Some end' \<Rightarrow> Some (take end' (drop (start + 1) s))))"

text \<open>
  The text between the first \<open>(\<close> of \<open>s\<close> and the first \<open>)\<close> after it, with the backticks
  removed and split at \<open>", "\<close>: the column list of a key.
\<close>

definition parenColumns :: "string \<Rightarrow> string list option" where
  "parenColumns s =
     (case index s ''('' of
        None \<Rightarrow> None
      | Some start \<Rightarrow>
          (case index (drop start s) '')'' of
             None \<Rightarrow> None
           | Some end' \<Rightarrow>
               Some (split (replaceAll (take (end' - 1) (drop (start + 1) s)) bq []) '', '')))"

text \<open>The word after a keyword of length \<open>n\<close> found at \<open>start\<close>: up to the next space.\<close>

definition wordAfter :: "string \<Rightarrow> nat \<Rightarrow> nat \<Rightarrow> string" where
  "wordAfter line start n =
     (let rest = drop (start + n) line in
      case index rest '' '' of
        Some end' \<Rightarrow> trimSpace (take end' rest)
      | None \<Rightarrow> trimSpace rest)"

text \<open>
  \<open>fmt.Sscanf(text, "%d", &n)\<close>: leading blanks, an optional sign, decimal digits. The
  result is \<open>None\<close> when the scan fails and leaves \<open>n\<close> as it was.
\<close>

definition isDigit :: "char \<Rightarrow> bool" where
  "isDigit c = (CHR ''0'' \<le> c \<and> c \<le> CHR ''9'')"

definition digitsValue :: "string \<Rightarrow> int" where
  "digitsValue ds = foldl (\<lambda>acc c. 10 * acc + (int (of_char c) - 48)) 0 ds"

definition sscanfInt :: "string \<Rightarrow> int option" where
  "sscanfInt text =
     (let t = dropWhile (\<lambda>c. c = CHR '' '' \<or> c = CHR 0x09 \<or> c = CHR 0x0D) text;
          neg = (t \<noteq> [] \<and> hd t = CHR ''-'');
          t' = (if t \<noteq> [] \<and> (hd t = CHR ''+'' \<or> hd t = CHR ''-'') then tl t else t);
          ds = takeWhile (\<lambda>c. isDigit c \<or> c = CHR ''_'') t';
          v = (if neg then - digitsValue ds else digitsValue ds)
      in if ds = [] \<or> CHR ''_'' \<in> set ds \<or> v < - (2 ^ 63) \<or> 2 ^ 63 \<le> v then None
         else Some v)"

definition parseColumnLine :: "string \<Rightarrow> Column option" where
  "parseColumnLine line0 =
     (let line = trimSpace line0 in
      if \<not> hasPrefix line bq then None
      else
        (case firstQuoted line of
           None \<Rightarrow> None
         | Some columnName \<Rightarrow>
             (if columnName = [] then None
              else
                (let parts = Fields line in
                 if length parts < 3 then None
                 else
                   (let ty = toUpper (parts ! 2);
                        c0 = emptyColumn\<lparr>Column_Name := columnName, Column_Type := ty,
                               Column_Nullable := \<not> contains line ''NOT NULL'',
                               Column_AutoIncrement := contains line ''AUTO_INCREMENT''\<rparr>;
                        c1 = (case index line ''DEFAULT'' of
                                None \<Rightarrow> c0
                              | Some idx \<Rightarrow> c0\<lparr>Column_Default := DString (wordAfter line idx 7)\<rparr>);
                        c2 = (if contains ty ''VARCHAR'' \<or> contains ty ''CHAR'' then
                                (case index line ''('' of
                                   None \<Rightarrow> c1
                                 | Some start \<Rightarrow>
                                     (case index (drop start line) '')'' of
                                        None \<Rightarrow> c1
                                      | Some end' \<Rightarrow>
                                          (case sscanfInt (take (end' - 1) (drop (start + 1) line)) of
                                             None \<Rightarrow> c1
                                           | Some n \<Rightarrow> c1\<lparr>Column_Length := n\<rparr>)))
                              else c1)
                    in Some c2)))))"

definition parseColumnLines :: "string \<Rightarrow> Column list" where
  "parseColumnLines tableSQL = List.map_filter parseColumnLine (split tableSQL nl)"

definition parsePrimaryKey :: "string \<Rightarrow> string \<Rightarrow> PrimaryKey option" where
  "parsePrimaryKey tableName tableSQL =
     (case index tableSQL ''PRIMARY KEY'' of
        None \<Rightarrow> None
      | Some start \<Rightarrow>
          (case parenColumns (drop start tableSQL) of
             None \<Rightarrow> None
           | Some cols \<Rightarrow>
               Some \<lparr>PrimaryKey_Name = ''pk_'' @ tableName, PrimaryKey_Columns = cols\<rparr>))"

definition parseIndexLine :: "string \<Rightarrow> Index option" where
  "parseIndexLine line0 =
     (let line = trimSpace line0 in
      if hasPrefix line ''UNIQUE KEY'' \<or> hasPrefix line ''KEY'' then
        Some \<lparr>Index_Name = (case firstQuoted line of None \<Rightarrow> [] | Some n \<Rightarrow> n),
              Index_Columns = (case parenColumns line of None \<Rightarrow> [] | Some cols \<Rightarrow> cols),
              Index_Type = ''BTREE'',
              Index_Unique = hasPrefix line ''UNIQUE''\<rparr>
      else None)"

definition parseIndexLines :: "string \<Rightarrow> Index list" where
  "parseIndexLines tableSQL =
     (if contains tableSQL ''UNIQUE KEY'' \<or> contains tableSQL ''KEY''
      then List.map_filter parseIndexLine (split tableSQL nl) else [])"

definition parseForeignKeyLine :: "string \<Rightarrow> ForeignKey option" where
  "parseForeignKeyLine line0 =
     (let line = trimSpace line0 in
      case index line ''FOREIGN KEY'' of
        None \<Rightarrow> None
      | Some start \<Rightarrow>
          (let rest = (case index line ''REFERENCES'' of
                         None \<Rightarrow> None | Some r \<Rightarrow> Some (drop (r + 10) line)) in
           Some \<lparr>ForeignKey_Name = (case firstQuoted line of None \<Rightarrow> [] | Some n \<Rightarrow> n),
                 ForeignKey_Columns =
                   (case parenColumns (drop start line) of None \<Rightarrow> [] | Some cols \<Rightarrow> cols),
                 ForeignKey_ReferenceTable =
                   (case rest of
                      None \<Rightarrow> []
                    | Some r \<Rightarrow> (case firstQuoted r of None \<Rightarrow> [] | Some n \<Rightarrow> n)),
                 ForeignKey_ReferenceColumns =
                   (case rest of
                      None \<Rightarrow> []
                    | Some r \<Rightarrow> (case parenColumns r of None \<Rightarrow> [] | Some cols \<Rightarrow> cols)),
                 ForeignKey_OnDelete =
                   (case index line ''ON DELETE'' of
                      None \<Rightarrow> [] | Some i \<Rightarrow> wordAfter line i 9),
                 ForeignKey_OnUpdate =
                   (case index line ''ON UPDATE'' of
                      None \<Rightarrow> [] | Some i \<Rightarrow> wordAfter line i 9)\<rparr>))"

definition parseForeignKeyLines :: "string \<Rightarrow> ForeignKey list" where
  "parseForeignKeyLines tableSQL =
     (if contains tableSQL ''FOREIGN KEY''
      then List.map_filter parseForeignKeyLine (split tableSQL nl) else [])"

definition parseTableSQL :: "string \<Rightarrow> Table option" where
  "parseTableSQL tableSQL =
     (if trimSpace tableSQL = [] then None
      else
        (case firstQuoted tableSQL of
           None \<Rightarrow> None
         | Some tableName \<Rightarrow>
             (if tableName = [] then None
              else Some \<lparr>Table_Name = tableName,
                         Table_Columns = parseColumnLines tableSQL,
                         Table_Indexes = parseIndexLines tableSQL,
                         Table_ForeignKeys = parseForeignKeyLines tableSQL,
                         Table_PrimaryKey = parsePrimaryKey tableName tableSQL\<rparr>)))"

definition FromSQL :: "string \<Rightarrow> Schema" where
  "FromSQL sql =
     (if sql = [] then \<lparr>Tables = []\<rparr>
      else \<lparr>Tables = List.map_filter parseTableSQL (split sql ''CREATE TABLE'')\<rparr>)"

section \<open>The orchestrator of internal/schema/executor.go\<close>






text \<open>
  \<open>Execute\<close> from the point where the schema program has returned its output. The
  environment is what the operating system answers: the outcome of reading
  \<open>migrations/schema.sql\<close> and whether \<open>saveSchemaState\<close> can write. The result is the
  returned migration text and, when \<open>saveSchemaState\<close> ran, the schema text it stored (its
  second file, the hash of the normalised schema, is left out of the model).
\<close>

datatype 'a readResult = ReadOk 'a | NotExist | ReadFailed


datatype ('e, 'a) outcome = Panics panic | Fails 'e | Returns 'a





section \<open>Type validation (unnamed/part_001)\<close>

record SQLType =
  SQLType_Name :: string
  SQLType_Length :: int
  SQLType_Precision :: int
  SQLType_Scale :: int
  SQLType_Unsigned :: bool

text \<open>
  \<open>strconv.Atoi\<close>: an optional sign and decimal digits, nothing else, within the range of
  a 64-bit \<open>int\<close>; \<open>None\<close> is the error.
\<close>

definition Atoi :: "string \<Rightarrow> int option" where
  "Atoi s =
     (let neg = (s \<noteq> [] \<and> hd s = CHR ''-'');
          ds = (if s \<noteq> [] \<and> (hd s = CHR ''+'' \<or> hd s = CHR ''-'') then tl s else s);
          v = (if neg then - digitsValue ds else digitsValue ds)
      in if ds = [] \<or> \<not> list_all isDigit ds \<or> v < - (2 ^ 63) \<or> 2 ^ 63 \<le> v then None
         else Some v)"

definition parseParams :: "string \<Rightarrow> SQLType \<Rightarrow> SQLType" where
  "parseParams params result =
     (if contains params '','' then
        (case split params '','' of
           [p0, p1] \<Rightarrow>
             (let r1 = (case Atoi (trimSpace p0) of
                          Some p \<Rightarrow> result\<lparr>SQLType_Precision := p\<rparr> | None \<Rightarrow> result)
              in (case Atoi (trimSpace p1) of
                    Some s \<Rightarrow> r1\<lparr>SQLType_Scale := s\<rparr> | None \<Rightarrow> r1))
         | _ \<Rightarrow> result)
      else
        (case Atoi params of
           Some l \<Rightarrow> result\<lparr>SQLType_Length := l\<rparr> | None \<Rightarrow> result))"

definition defaultLength :: "int \<Rightarrow> SQLType \<Rightarrow> SQLType" where
  "defaultLength n result =
     (if SQLType_Length result = 0 then result\<lparr>SQLType_Length := n\<rparr> else result)"

definition defaultPrecision :: "int \<Rightarrow> SQLType \<Rightarrow> SQLType" where
  "defaultPrecision n result =
     (if SQLType_Precision result = 0 then result\<lparr>SQLType_Precision := n\<rparr> else result)"

definition defaultScale :: "int \<Rightarrow> SQLType \<Rightarrow> SQLType" where
  "defaultScale n result =
     (if SQLType_Scale result = 0 then result\<lparr>SQLType_Scale := n\<rparr> else result)"

text \<open>The \<open>switch\<close> on the base name; \<open>sqlType\<close> is the text the error message quotes.\<close>

definition validateName :: "string \<Rightarrow> SQLType \<Rightarrow> (string, SQLType) outcome" where
  "validateName sqlType result =
     (let name = SQLType_Name result in
      if name = ''TINYINT'' then Returns (defaultLength 4 result)
      else if name = ''SMALLINT'' then Returns (defaultLength 6 result)
      else if name = ''MEDIUMINT'' then Returns (defaultLength 9 result)
      else if name = ''INT'' \<or> name = ''INTEGER''
        then Returns (defaultLength 11 (result\<lparr>SQLType_Name := ''INT''\<rparr>))
      else if name = ''BIGINT'' then Returns (defaultLength 20 result)
      else if name = ''DECIMAL'' \<or> name = ''NUMERIC''
        then Returns (defaultScale 2 (defaultPrecision 10 (result\<lparr>SQLType_Name := ''DECIMAL''\<rparr>)))
      else if name = ''FLOAT'' then Returns (defaultPrecision 10 result)
      else if name = ''DOUBLE'' \<or> name = ''REAL''
        then Returns (defaultPrecision 16 (result\<lparr>SQLType_Name := ''DOUBLE''\<rparr>))
      else if name = ''VARCHAR'' \<or> name = ''CHAR''
        then Returns (defaultLength (if name = ''VARCHAR'' then 255 else 1) result)
      else if name = ''TEXT'' \<or> name = ''TINYTEXT'' \<or> name = ''MEDIUMTEXT'' \<or> name = ''LONGTEXT''
        then Returns (result\<lparr>SQLType_Length := 0\<rparr>)
      else if name = ''DATETIME'' \<or> name = ''TIMESTAMP'' \<or> name = ''DATE'' \<or> name = ''TIME''
        then Returns (result\<lparr>SQLType_Length := 0\<rparr>)
      else if name = ''BOOLEAN'' \<or> name = ''BOOL''
        then Returns (result\<lparr>SQLType_Name := ''TINYINT'', SQLType_Length := 1\<rparr>)
      else if name = ''ENUM'' then Returns result
      else if name = ''JSON'' then Returns (result\<lparr>SQLType_Length := 0\<rparr>)
      else Fails (''tipe data tidak didukung: '' @ sqlType))"

definition ValidateSQLType :: "string \<Rightarrow> (string, SQLType) outcome" where
  "ValidateSQLType input =
     (let upper = toUpper (trimSpace input);
          unsigned = contains upper ''UNSIGNED'';
          sqlType = (if unsigned then trimSpace (replaceAll upper ''UNSIGNED'' []) else upper);
          result = \<lparr>SQLType_Name = [], SQLType_Length = 0, SQLType_Precision = 0,
                    SQLType_Scale = 0, SQLType_Unsigned = unsigned\<rparr>
      in case index sqlType ''('' of
           None \<Rightarrow> validateName sqlType (result\<lparr>SQLType_Name := sqlType\<rparr>)
         | Some open' \<Rightarrow>
             (case index sqlType '')'' of
                None \<Rightarrow> Panics SliceBounds
              | Some close' \<Rightarrow>
                  (case slice sqlType (open' + 1) close' of
                     Inl p \<Rightarrow> Panics p
                   | Inr params \<Rightarrow>
                       validateName sqlType
                         (parseParams params (result\<lparr>SQLType_Name := take open' sqlType\<rparr>)))))"

section \<open>Checksum Ledger (cmd/datara/main.go)\<close>

subsection \<open>SHA-256 and base64, as \<open>crypto/sha256\<close> and \<open>encoding/base64\<close> compute them\<close>

text \<open>
  The round constants and the initial state are written in decimal: \<open>1116352408\<close> is
  \<open>0x428a2f98\<close>, \<open>1779033703\<close> is \<open>0x6a09e667\<close>.
\<close>

unbundle bit_operations_syntax

type_synonym w32 = "32 word"

definition rotr :: "nat \<Rightarrow> w32 \<Rightarrow> w32" where
  "rotr n x = word_rotr n x"

definition bigSigma0 :: "w32 \<Rightarrow> w32" where
  "bigSigma0 x = rotr 2 x XOR rotr 13 x XOR rotr 22 x"

definition bigSigma1 :: "w32 \<Rightarrow> w32" where
  "bigSigma1 x = rotr 6 x XOR rotr 11 x XOR rotr 25 x"

definition smallSigma0 :: "w32 \<Rightarrow> w32" where
  "smallSigma0 x = rotr 7 x XOR rotr 18 x XOR drop_bit 3 x"

definition smallSigma1 :: "w32 \<Rightarrow> w32" where
  "smallSigma1 x = rotr 17 x XOR rotr 19 x XOR drop_bit 10 x"

definition ch :: "w32 \<Rightarrow> w32 \<Rightarrow> w32 \<Rightarrow> w32" where
  "ch x y z = (x AND y) XOR (NOT x AND z)"

definition maj :: "w32 \<Rightarrow> w32 \<Rightarrow> w32 \<Rightarrow> w32" where
  "maj x y z = (x AND y) XOR (x AND z) XOR (y AND z)"

definition sha256K :: "w32 list" where
  "sha256K =
     [1116352408, 1899447441, 3049323471, 3921009573, 961987163, 1508970993, 2453635748,
      2870763221, 3624381080, 310598401, 607225278, 1426881987, 1925078388, 2162078206,
      2614888103, 3248222580, 3835390401, 4022224774, 264347078, 604807628, 770255983,
      1249150122, 1555081692, 1996064986, 2554220882, 2821834349, 2952996808, 3210313671,
      3336571891, 3584528711, 113926993, 338241895, 666307205, 773529912, 1294757372,
      1396182291, 1695183700, 1986661051, 2177026350, 2456956037, 2730485921, 2820302411,
      3259730800, 3345764771, 3516065817, 3600352804, 4094571909, 275423344, 430227734,
      506948616, 659060556, 883997877, 958139571, 1322822218, 1537002063, 1747873779,
      1955562222, 2024104815, 2227730452, 2361852424, 2428436474, 2756734187, 3204031479,
      3329325298]"

definition sha256Init :: "w32 list" where
  "sha256Init =
     [1779033703, 3144134277, 1013904242, 2773480762, 1359893119, 2600822924, 528734635,
      1541459225]"

text \<open>The padded message: the bytes, 0x80, zeros, and the bit length in 8 bytes.\<close>

definition bigEndian :: "nat \<Rightarrow> nat \<Rightarrow> nat list" where
  "bigEndian k n = map (\<lambda>i. (n div 256 ^ (k - 1 - i)) mod 256) [0..<k]"

definition sha256Pad :: "nat list \<Rightarrow> nat list" where
  "sha256Pad bytes =
     bytes @ [128] @ replicate ((119 - length bytes mod 64) mod 64) 0
     @ bigEndian 8 (8 * length bytes)"

fun wordsOf :: "nat list \<Rightarrow> w32 list" where
  "wordsOf (a # b # c # d # rest) =
     word_of_nat (((a * 256 + b) * 256 + c) * 256 + d) # wordsOf rest"
| "wordsOf _ = []"

fun schedule :: "nat \<Rightarrow> w32 list \<Rightarrow> w32 list" where
  "schedule 0 w = w"
| "schedule (Suc n) w =
     schedule n
       (w @ [smallSigma1 (w ! (length w - 2)) + w ! (length w - 7)
             + smallSigma0 (w ! (length w - 15)) + w ! (length w - 16)])"

fun sha256Round :: "w32 list \<Rightarrow> w32 \<times> w32 \<Rightarrow> w32 list" where
  "sha256Round [a, b, c, d, e, f, g, h] (k, w) =
     (let t1 = h + bigSigma1 e + ch e f g + k + w;
          t2 = bigSigma0 a + maj a b c
      in [t1 + t2, a, b, c, d + t1, e, f, g])"
| "sha256Round st _ = st"

definition sha256Block :: "w32 list \<Rightarrow> w32 list \<Rightarrow> w32 list" where
  "sha256Block st block =
     map2 (+) st (foldl sha256Round st (zip sha256K (schedule 48 block)))"

fun chunks16 :: "nat \<Rightarrow> w32 list \<Rightarrow> w32 list list" where
  "chunks16 0 ws = []"
| "chunks16 (Suc fuel) ws =
     (if ws = [] then [] else take 16 ws # chunks16 fuel (drop 16 ws))"

definition sha256 :: "string \<Rightarrow> nat list" where
  "sha256 content =
     (let ws = wordsOf (sha256Pad (map of_char content)) in
      concat (map (\<lambda>w. bigEndian 4 (unat w))
                  (foldl sha256Block sha256Init (chunks16 (length ws) ws))))"

definition base64Char :: "nat \<Rightarrow> char" where
  "base64Char n =
     ''ABCDEFGHIJKLMNOPQRSTUVWXYZabcdefghijklmnopqrstuvwxyz0123456789+/'' ! (n mod 64)"

fun base64 :: "nat list \<Rightarrow> string" where
  "base64 (a # b # c # rest) =
     [base64Char (a div 4), base64Char ((a mod 4) * 16 + b div 16),
      base64Char ((b mod 16) * 4 + c div 64), base64Char (c mod 64)] @ base64 rest"
| "base64 [a, b] =
     [base64Char (a div 4), base64Char ((a mod 4) * 16 + b div 16),
      base64Char ((b mod 16) * 4), CHR ''='']"
| "base64 [a] = [base64Char (a div 4), base64Char ((a mod 4) * 16), CHR ''='', CHR ''='']"
| "base64 [] = []"

definition calculateFileHash :: "string \<Rightarrow> string" where
  "calculateFileHash content = ''h1:'' @ base64 (sha256 content)"


subsection \<open>The migrations directory\<close>

text \<open>
  The state the ledger works on is the migrations directory: absent, failing every
  access, or a list of entries, one per name. An entry is a file with its content, a
  subdirectory, or a file the operating system refuses to read or overwrite. A file that
  was created is written in full: the model has no disk that fills up.
\<close>

datatype node = File string | Directory | Unreadable

datatype dirState = DirAbsent | DirFailed | DirEntries "(string \<times> node) list"

datatype ioError = IOError | ErrTooLong

text \<open>\<open>os.ReadFile\<close>, and \<open>os.Open\<close> followed by reading, of \<open>dir/name\<close>.\<close>

definition readFile :: "dirState \<Rightarrow> string \<Rightarrow> string readResult" where
  "readFile fs name =
     (case fs of
        DirAbsent \<Rightarrow> NotExist
      | DirFailed \<Rightarrow> ReadFailed
      | DirEntries es \<Rightarrow>
          (case map_of es name of
             None \<Rightarrow> NotExist
           | Some (File content) \<Rightarrow> ReadOk content
           | Some _ \<Rightarrow> ReadFailed))"

text \<open>\<open>os.Create\<close> and \<open>os.WriteFile\<close> of \<open>dir/name\<close>: the new state, or the error.\<close>

definition writeFile :: "dirState \<Rightarrow> string \<Rightarrow> string \<Rightarrow> ioError + dirState" where
  "writeFile fs name content =
     (case fs of
        DirEntries es \<Rightarrow>
          (case map_of es name of
             Some Directory \<Rightarrow> Inl IOError
           | Some Unreadable \<Rightarrow> Inl IOError
           | _ \<Rightarrow> Inr (DirEntries (mapSet es name (File content))))
      | _ \<Rightarrow> Inl IOError)"

text \<open>\<open>os.MkdirAll\<close> of the directory.\<close>

definition mkdirAll :: "dirState \<Rightarrow> ioError + dirState" where
  "mkdirAll fs =
     (case fs of
        DirAbsent \<Rightarrow> Inr (DirEntries [])
      | DirFailed \<Rightarrow> Inl IOError
      | DirEntries es \<Rightarrow> Inr (DirEntries es))"

text \<open>
  The lines a \<open>bufio.Scanner\<close> yields: the text between line feeds, without a final
  empty piece, each without one trailing carriage return. A line of 65536 bytes or more
  does not fit the scanner's buffer and ends the scan with \<open>ErrTooLong\<close>.
\<close>

definition dropCR :: "string \<Rightarrow> string" where
  "dropCR line = (if line \<noteq> [] \<and> last line = CHR 0x0D then butlast line else line)"

definition scanLines :: "string \<Rightarrow> ioError + string list" where
  "scanLines content =
     (let pieces = split content nl;
          raw = (if last pieces = [] then butlast pieces else pieces)
      in if list_ex (\<lambda>line. 65536 \<le> length line) raw then Inl ErrTooLong
         else Inr (map dropCR raw))"

definition checksumLine :: "gomap \<Rightarrow> string \<Rightarrow> gomap" where
  "checksumLine checksums line =
     (case Fields line of
        [p0, p1] \<Rightarrow> mapSet checksums p0 p1
      | _ \<Rightarrow> checksums)"

definition readChecksumFile :: "dirState \<Rightarrow> ioError + gomap" where
  "readChecksumFile fs =
     (case readFile fs ''datara.sum'' of
        NotExist \<Rightarrow> Inr []
      | ReadFailed \<Rightarrow> Inl IOError
      | ReadOk content \<Rightarrow>
          (case scanLines content of
             Inl e \<Rightarrow> Inl e
           | Inr lines \<Rightarrow> Inr (foldl checksumLine [] (drop 1 lines))))"

text \<open>The names \<open>calculateGlobalHash\<close> keeps: not a directory, ending in \<open>.sql\<close>; sorted.\<close>

definition sqlFilenames :: "(string \<times> node) list \<Rightarrow> string list" where
  "sqlFilenames es =
     sort (map fst (filter (\<lambda>(name, n). n \<noteq> Directory \<and> hasSuffix name ''.sql'') es))"

fun readAll :: "dirState \<Rightarrow> string \<Rightarrow> string list \<Rightarrow> ioError + string" where
  "readAll fs allContent [] = Inr allContent"
| "readAll fs allContent (filename # rest) =
     (case readFile fs filename of
        ReadOk content \<Rightarrow> readAll fs (allContent @ content) rest
      | _ \<Rightarrow> Inl IOError)"

definition calculateGlobalHash :: "dirState \<Rightarrow> ioError + string" where
  "calculateGlobalHash fs =
     (case fs of
        DirAbsent \<Rightarrow> Inr (calculateFileHash [])
      | DirFailed \<Rightarrow> Inl IOError
      | DirEntries es \<Rightarrow>
          (case readAll fs [] (sqlFilenames es) of
             Inl e \<Rightarrow> Inl e
           | Inr allContent \<Rightarrow> Inr (calculateFileHash allContent)))"

definition manifestText :: "gomap \<Rightarrow> string \<Rightarrow> string list \<Rightarrow> string" where
  "manifestText checksums globalHash filenames =
     globalHash @ nl
     @ concat (map (\<lambda>filename. filename @ '' '' @ mapGet checksums filename @ nl) filenames)"

definition writeChecksumFile :: "iteration \<Rightarrow> gomap \<Rightarrow> string \<Rightarrow> dirState \<Rightarrow> ioError + dirState" where
  "writeChecksumFile ord checksums globalHash fs =
     (let filenames = sort (map fst (ord ChecksumNames checksums)) in
      writeFile fs ''datara.sum'' (manifestText checksums globalHash filenames))"

text \<open>\<open>filepath.Base\<close> with \<open>/\<close> as the separator.\<close>

definition Base :: "string \<Rightarrow> string" where
  "Base path =
     (if path = [] then ''.''
      else (let p = trimRightSet path (\<lambda>c. c = CHR ''/'') in
            if p = [] then ''/''
            else rev (takeWhile (\<lambda>c. c \<noteq> CHR ''/'') (rev p))))"

definition updateChecksums :: "iteration \<Rightarrow> string \<Rightarrow> string \<Rightarrow> dirState \<Rightarrow> ioError + dirState" where
  "updateChecksums ord newFile content fs =
     (case readChecksumFile fs of
        Inl e \<Rightarrow> Inl e
      | Inr checksums \<Rightarrow>
          (let filename = Base newFile;
               checksums' = mapSet checksums filename (calculateFileHash content)
           in case calculateGlobalHash fs of
                Inl e \<Rightarrow> Inl e
              | Inr globalHash \<Rightarrow> writeChecksumFile ord checksums' globalHash fs))"

text \<open>
  \<open>generateMigration\<close>; \<open>timestamp\<close> is \<open>time.Now()\<close> in the layout \<open>20060102150405\<close> and
  \<open>dir\<close> the configured path of the directory.
\<close>

definition generateMigration ::
  "iteration \<Rightarrow> string \<Rightarrow> string \<Rightarrow> string \<Rightarrow> dirState \<Rightarrow> ioError + dirState" where
  "generateMigration ord dir timestamp sql fs =
     (case mkdirAll fs of
        Inl e \<Rightarrow> Inl e
      | Inr fs1 \<Rightarrow>
          (case writeFile fs1 (timestamp @ ''.sql'') sql of
             Inl e \<Rightarrow> Inl e
           | Inr fs2 \<Rightarrow> updateChecksums ord (dir @ ''/'' @ timestamp @ ''.sql'') sql fs2))"

definition saveLastSchema :: "Schema \<Rightarrow> dirState \<Rightarrow> ioError + dirState" where
  "saveLastSchema schema fs =
     (case mkdirAll fs of
        Inl e \<Rightarrow> Inl e
      | Inr fs1 \<Rightarrow> writeFile fs1 ''datara.schema'' (ToSQL schema))"

definition loadLastSchema :: "dirState \<Rightarrow> ioError + Schema" where
  "loadLastSchema fs =
     (case readFile fs ''datara.schema'' of
        NotExist \<Rightarrow> Inr \<lparr>Tables = []\<rparr>
      | ReadFailed \<Rightarrow> Inl IOError
      | ReadOk content \<Rightarrow>
          (if length content = 0 then Inr \<lparr>Tables = []\<rparr> else Inr (FromSQL content)))"

section \<open>Notions of the specification\<close>

text \<open>
  The base type name of the specification: the normalised text without \<open>UNSIGNED\<close>, up
  to its first \<open>(\<close>; and the supported names.
\<close>

definition baseTypeName :: "string \<Rightarrow> string" where
  "baseTypeName input =
     (let upper = toUpper (trimSpace input);
          sqlType = (if contains upper ''UNSIGNED''
                     then trimSpace (replaceAll upper ''UNSIGNED'' []) else upper)
      in case index sqlType ''('' of None \<Rightarrow> sqlType | Some i \<Rightarrow> take i sqlType)"

definition supportedTypes :: "string list" where
  "supportedTypes =
     [''TINYINT'', ''SMALLINT'', ''MEDIUMINT'', ''INT'', ''INTEGER'', ''BIGINT'', ''DECIMAL'',
      ''NUMERIC'', ''FLOAT'', ''DOUBLE'', ''REAL'', ''VARCHAR'', ''CHAR'', ''TEXT'', ''TINYTEXT'',
      ''MEDIUMTEXT'', ''LONGTEXT'', ''DATETIME'', ''TIMESTAMP'', ''DATE'', ''TIME'', ''BOOLEAN'',
      ''BOOL'', ''ENUM'', ''JSON'']"

text \<open>The checksum the manifest records for a file name, if the manifest can be read.\<close>

definition recordedChecksum :: "dirState \<Rightarrow> string \<Rightarrow> string option" where
  "recordedChecksum fs name =
     (case readChecksumFile fs of Inl e \<Rightarrow> None | Inr checksums \<Rightarrow> map_of checksums name)"

text \<open>
  The \<open>*.sql\<close> files of the directory with their contents, in the order of their names.
\<close>

definition sqlPairs :: "(string \<times> node) list \<Rightarrow> (string \<times> string) list" where
  "sqlPairs es =
     concat (map (\<lambda>(name, n). case n of File content \<Rightarrow>
                                    (if hasSuffix name ''.sql'' then [(name, content)] else [])
                                  | _ \<Rightarrow> []) es)"

definition sqlFilesInOrder :: "(string \<times> node) list \<Rightarrow> (string \<times> string) list" where
  "sqlFilesInOrder es = sort_key fst (sqlPairs es)"

text \<open>A token of \<open>strings.Fields\<close>: not empty, without white space.\<close>

definition isToken :: "string \<Rightarrow> bool" where
  "isToken t = (t \<noteq> [] \<and> \<not> list_ex isSpace t)"

section \<open>Example inputs\<close>

text \<open>The model \<open>type Account struct { Status string }\<close>.\<close>

definition exampleAccount :: model where
  "exampleAccount =
     MStruct \<lparr>Struct_Name = ''Account'', Struct_Fields =
       [\<lparr>Field_Name = ''Status'', Field_Type = TString, Field_Anonymous = False\<rparr>]\<rparr>"

section \<open>Theorems\<close>

subsection \<open>Naming Normalizer\<close>

lemma pluralize_rule:
  "pluralize s =
     (if s = [] then ''s''
      else if last s = CHR ''s'' then s @ ''es''
      else if last s = CHR ''y'' then butlast s @ ''ies''
      else s @ ''s'')"
proof (cases s rule: rev_cases)
  case Nil
  then show ?thesis by (simp add: pluralize_def)
next
  case (snoc ys y)
  then show ?thesis by (simp add: pluralize_def hasSuffix_def butlast_conv_take)
qed

lemma naming_examples:
  "pluralize ''status'' = ''statuses''"
  "pluralize ''user'' = ''users''"
  "pluralize [] = ''s''"
  "toSnakeCase ''UserAPIKey'' = ''user_api_key''"
  "toSnakeCase ''ID'' = ''id''"
  "toSnakeCase_codec ''ID'' = ''id''"
  by code_simp+

text \<open>
  C7. The naming rules: \<open>pluralize\<close> follows the stated rule on every string
  (\<open>pluralize_rule\<close>) and \<open>toSnakeCase\<close> of datara.go yields the stated examples
  (\<open>naming_examples\<close>), but \<open>toSnakeCase\<close> of the schema codec, which has the \<open>ID\<close> special
  cases, puts an underscore before every capital of an acronym: \<open>UserAPIKey\<close> becomes
  \<open>user_a_p_i_key\<close>, not \<open>user_api_key\<close>.
\<close>

theorem toSnakeCase_codec_UserAPIKey:
  "toSnakeCase_codec ''UserAPIKey'' = ''user_a_p_i_key''"
  by code_simp

subsection \<open>Migration document\<close>






subsection \<open>Diff Engine\<close>

lemma map_of_mapSet: "map_of (mapSet m k v) = (map_of m)(k \<mapsto> v)"
  by (induction m k v rule: mapSet.induct) (auto simp: fun_eq_iff)

















lemma set_ord: "iterationOrder ord \<Longrightarrow> set (ord site m) = set m"
  unfolding iterationOrder_def by (metis set_mset_mset)














text \<open>
  C2. The statements of a diff come out in the order in which the maps are iterated:
  nothing sorts the table or column names. With two dropped tables, two iteration orders
  give two different results.
\<close>

theorem generateSchemaDiff_order_dependent:
  "iterationOrder (\<lambda>site. id) \<and> iterationOrder (\<lambda>site. rev)
   \<and> generateSchemaDiff (\<lambda>site. id) ''CREATE TABLE a (x int);CREATE TABLE b (y int);'' []
       = Inr (''DROP TABLE IF EXISTS \"a\" CASCADE;\<newline>DROP TABLE IF EXISTS \"b\" CASCADE;'',
              ''CREATE TABLE a (x int);\<newline>CREATE TABLE b (y int);'')
   \<and> generateSchemaDiff (\<lambda>site. rev) ''CREATE TABLE a (x int);CREATE TABLE b (y int);'' []
       = Inr (''DROP TABLE IF EXISTS \"b\" CASCADE;\<newline>DROP TABLE IF EXISTS \"a\" CASCADE;'',
              ''CREATE TABLE b (y int);\<newline>CREATE TABLE a (x int);'')"
proof -
  have "iterationOrder (\<lambda>site. id)" "iterationOrder (\<lambda>site. rev)"
    by (simp_all add: iterationOrder_def)
  moreover have
    "generateSchemaDiff (\<lambda>site. id) ''CREATE TABLE a (x int);CREATE TABLE b (y int);'' []
       = Inr (''DROP TABLE IF EXISTS \"a\" CASCADE;\<newline>DROP TABLE IF EXISTS \"b\" CASCADE;'',
              ''CREATE TABLE a (x int);\<newline>CREATE TABLE b (y int);'')"
    by code_simp
  moreover have
    "generateSchemaDiff (\<lambda>site. rev) ''CREATE TABLE a (x int);CREATE TABLE b (y int);'' []
       = Inr (''DROP TABLE IF EXISTS \"b\" CASCADE;\<newline>DROP TABLE IF EXISTS \"a\" CASCADE;'',
              ''CREATE TABLE b (y int);\<newline>CREATE TABLE a (x int);'')"
    by code_simp
  ultimately show ?thesis by simp
qed




subsection \<open>SQL Codec\<close>

text \<open>
  C1. The round trip does not give the model back. \<open>FromSQL\<close> takes the third
  white-space separated field of a column line as the type, which in the codec's own
  output is \<open>NOT\<close>, \<open>NULL\<close> or \<open>UNSIGNED\<close>, never the type; it reads a default as the
  text up to the next space, which is empty because a space follows the keyword. The
  table name, the column name and the nullability do come back.
\<close>

theorem FromSQL_ToSQL_round_trip_fails:
  "ParseSchema [exampleAccount] =
     \<lparr>Tables =
       [\<lparr>Table_Name = ''accounts'',
         Table_Columns =
           [\<lparr>Column_Name = ''status'', Column_Type = ''VARCHAR(50)'', Column_Length = 0,
              Column_Nullable = False, Column_Default = DString ''user'',
              Column_AutoIncrement = False, Column_IsPrimaryKey = False,
              Column_IsUnique = False\<rparr>],
         Table_Indexes = [], Table_ForeignKeys = [], Table_PrimaryKey = None\<rparr>]\<rparr>
   \<and> FromSQL (ToSQL (ParseSchema [exampleAccount])) =
     \<lparr>Tables =
       [\<lparr>Table_Name = ''accounts'',
         Table_Columns =
           [\<lparr>Column_Name = ''status'', Column_Type = ''NOT'', Column_Length = 0,
              Column_Nullable = False, Column_Default = DString [],
              Column_AutoIncrement = False, Column_IsPrimaryKey = False,
              Column_IsUnique = False\<rparr>],
         Table_Indexes = [], Table_ForeignKeys = [], Table_PrimaryKey = None\<rparr>]\<rparr>"
  by code_simp

subsection \<open>Type validation\<close>

lemma parseParams_Name: "SQLType_Name (parseParams params r) = SQLType_Name r"
  by (simp add: parseParams_def Let_def split: list.splits option.splits)

lemma validateName_fails_iff:
  "(\<exists>msg. validateName t r = Fails msg) = (SQLType_Name r \<notin> set supportedTypes)"
  by (simp add: validateName_def supportedTypes_def Let_def)

lemma validateName_no_panic: "validateName t r \<noteq> Panics p"
  by (simp add: validateName_def Let_def)

lemma ValidateSQLType_error_iff:
  assumes np: "ValidateSQLType input \<noteq> Panics SliceBounds"
  shows "(\<exists>msg. ValidateSQLType input = Fails msg) = (baseTypeName input \<notin> set supportedTypes)"
proof -
  define sqlType where
    "sqlType = (if contains (toUpper (trimSpace input)) ''UNSIGNED''
                then trimSpace (replaceAll (toUpper (trimSpace input)) ''UNSIGNED'' [])
                else toUpper (trimSpace input))"
  define result where
    "result = \<lparr>SQLType_Name = [], SQLType_Length = 0, SQLType_Precision = 0,
                SQLType_Scale = 0,
                SQLType_Unsigned = contains (toUpper (trimSpace input)) ''UNSIGNED''\<rparr>"
  have b: "baseTypeName input =
             (case index sqlType ''('' of None \<Rightarrow> sqlType | Some i \<Rightarrow> take i sqlType)"
    unfolding baseTypeName_def Let_def sqlType_def by (simp split: option.splits)
  have v: "ValidateSQLType input =
     (case index sqlType ''('' of
           None \<Rightarrow> validateName sqlType (result\<lparr>SQLType_Name := sqlType\<rparr>)
         | Some open' \<Rightarrow>
             (case index sqlType '')'' of
                None \<Rightarrow> Panics SliceBounds
              | Some close' \<Rightarrow>
                  (case slice sqlType (open' + 1) close' of
                     Inl p \<Rightarrow> Panics p
                   | Inr params \<Rightarrow>
                       validateName sqlType
                         (parseParams params (result\<lparr>SQLType_Name := take open' sqlType\<rparr>)))))"
    unfolding ValidateSQLType_def Let_def sqlType_def result_def
    by (simp split: option.splits)
  show ?thesis
  proof (cases "index sqlType ''(''")
    case None
    then show ?thesis by (simp add: b v validateName_fails_iff)
  next
    case (Some open')
    from np obtain close' params where
      "index sqlType '')'' = Some close'" "slice sqlType (open' + 1) close' = Inr params"
      unfolding v Some
      by (auto split: option.splits sum.splits intro: panic.exhaust)
    then show ?thesis
      by (simp add: b v Some validateName_fails_iff parseParams_Name)
  qed
qed

text \<open>
  C8. \<open>ValidateSQLType\<close> returns an error exactly when the base type name is not a
  supported one (\<open>ValidateSQLType_error_iff\<close>), provided it returns at all: an input
  with a \<open>(\<close> and no \<open>)\<close> after it makes the slice of the parameters panic, also when
  the base name is supported.
\<close>

theorem ValidateSQLType_panics:
  "ValidateSQLType ''INT('' = Panics SliceBounds
   \<and> ValidateSQLType ''varchar(255'' = Panics SliceBounds
   \<and> baseTypeName ''INT('' = ''INT'' \<and> baseTypeName ''varchar(255'' = ''VARCHAR''"
  by code_simp

subsection \<open>Persistence files\<close>

text \<open>
  C9. A manifest that does not exist reads as the empty checksum set, and a state file
  that does not exist, or is empty, loads as the Schema without tables; neither is an
  error.
\<close>

theorem missing_files_are_not_errors:
  "(readFile fs ''datara.sum'' = NotExist \<longrightarrow> readChecksumFile fs = Inr [])
   \<and> (readFile fs ''datara.schema'' = NotExist \<or> readFile fs ''datara.schema'' = ReadOk []
        \<longrightarrow> loadLastSchema fs = Inr \<lparr>Tables = []\<rparr>)"
  by (auto simp: readChecksumFile_def loadLastSchema_def)

theorem missing_files_are_not_errors_witness:
  "readFile DirAbsent ''datara.sum'' = NotExist \<and> readChecksumFile DirAbsent = Inr []
   \<and> readFile (DirEntries [(''20240101000000.sql'', File ''x'')]) ''datara.schema'' = NotExist
   \<and> loadLastSchema (DirEntries [(''20240101000000.sql'', File ''x'')]) = Inr \<lparr>Tables = []\<rparr>
   \<and> readFile (DirEntries [(''datara.schema'', File [])]) ''datara.schema'' = ReadOk []
   \<and> loadLastSchema (DirEntries [(''datara.schema'', File [])]) = Inr \<lparr>Tables = []\<rparr>"
proof -
  have a: "readFile DirAbsent ''datara.sum'' = NotExist" by (simp add: readFile_def)
  have b: "readFile (DirEntries [(''20240101000000.sql'', File ''x'')]) ''datara.schema'' = NotExist"
    by (simp add: readFile_def)
  have c: "readFile (DirEntries [(''datara.schema'', File [])]) ''datara.schema'' = ReadOk []"
    by (simp add: readFile_def)
  show ?thesis
    using missing_files_are_not_errors [of DirAbsent]
      missing_files_are_not_errors [of "DirEntries [(''20240101000000.sql'', File ''x'')]"]
      missing_files_are_not_errors [of "DirEntries [(''datara.schema'', File [])]"]
      a b c
    by simp
qed

subsection \<open>Checksum Ledger\<close>

lemma map_sort_key: "map f (sort_key f xs) = sort (map f xs)"
  by (rule properties_for_sort [symmetric]) simp_all

lemma sort_ord:
  assumes "iterationOrder ord"
  shows "sort (map fst (ord site m)) = sort (map fst m)"
proof -
  have "mset (map fst (ord site m)) = mset (map fst m)"
    using assms by (simp add: iterationOrder_def)
  then show ?thesis
    by (intro properties_for_sort) simp_all
qed

lemma readFile_writeFile:
  "writeFile fs name content = Inr fs' \<Longrightarrow> readFile fs' name = ReadOk content"
  by (auto simp: writeFile_def readFile_def map_of_mapSet
           split: dirState.splits option.splits node.splits)

lemma readFile_writeFile_other:
  "writeFile fs name content = Inr fs' \<Longrightarrow> other \<noteq> name \<Longrightarrow>
   readFile fs' other = readFile fs other"
  by (auto simp: writeFile_def readFile_def map_of_mapSet
           split: dirState.splits option.splits node.splits)

lemma readAll_ok:
  "\<forall>n \<in> set ns. \<exists>c. readFile fs n = ReadOk c \<Longrightarrow>
   readAll fs acc ns =
     Inr (acc @ concat (map (\<lambda>n. case readFile fs n of ReadOk c \<Rightarrow> c | _ \<Rightarrow> []) ns))"
  by (induction ns arbitrary: acc) auto

lemma sqlPairs_Cons:
  "sqlPairs ((name, n) # es) =
      (case n of File content \<Rightarrow> (if hasSuffix name ''.sql'' then [(name, content)] else [])
               | _ \<Rightarrow> []) @ sqlPairs es"
  by (simp add: sqlPairs_def)

lemma sqlPairs_keys:
  "list_all (\<lambda>(name, n). n \<noteq> Unreadable) (filter (\<lambda>(name, n). hasSuffix name ''.sql'') es) \<Longrightarrow>
   map fst (sqlPairs es) =
     map fst (filter (\<lambda>(name, n). n \<noteq> Directory \<and> hasSuffix name ''.sql'') es)"
proof (induction es)
  case Nil
  then show ?case by (simp add: sqlPairs_def)
next
  case (Cons e es)
  obtain name n where e: "e = (name, n)" by (cases e)
  show ?case using Cons unfolding e
    by (cases n; cases "hasSuffix name ''.sql''") (simp_all add: sqlPairs_Cons)
qed

lemma sqlPairs_in: "(name, content) \<in> set (sqlPairs es) \<Longrightarrow> (name, File content) \<in> set es"
  by (induction es) (auto simp: sqlPairs_def split: node.splits if_splits)

lemma calculateGlobalHash_sorted:
  assumes dist: "distinct (map fst es)"
    and readable: "list_all (\<lambda>(name, n). n \<noteq> Unreadable)
                     (filter (\<lambda>(name, n). hasSuffix name ''.sql'') es)"
  shows "calculateGlobalHash (DirEntries es) =
           Inr (calculateFileHash (concat (map snd (sqlFilesInOrder es))))"
proof -
  let ?fs = "DirEntries es"
  let ?content = "\<lambda>n. case readFile ?fs n of ReadOk c \<Rightarrow> c | _ \<Rightarrow> []"
  have order: "sqlFilesInOrder es = sort_key fst (sqlPairs es)"
    by (simp add: sqlFilesInOrder_def)
  have names: "sqlFilenames es = map fst (sqlFilesInOrder es)"
    unfolding sqlFilenames_def order map_sort_key sqlPairs_keys [OF readable] ..
  have rd: "readFile ?fs n = ReadOk c" if "(n, c) \<in> set (sqlFilesInOrder es)" for n c
  proof -
    from that have "(n, File c) \<in> set es" by (simp add: order sqlPairs_in)
    with dist have "map_of es n = Some (File c)" by simp
    then show ?thesis by (simp add: readFile_def)
  qed
  have all: "\<forall>n \<in> set (sqlFilenames es). \<exists>c. readFile ?fs n = ReadOk c"
    unfolding names using rd by auto
  have "?content (fst x) = snd x" if "x \<in> set (sqlFilesInOrder es)" for x
    using rd [of "fst x" "snd x"] that by simp
  then have "map (\<lambda>x. ?content (fst x)) (sqlFilesInOrder es) = map snd (sqlFilesInOrder es)"
    by (intro map_cong refl)
  then have "concat (map ?content (sqlFilenames es)) = concat (map snd (sqlFilesInOrder es))"
    unfolding names map_map comp_def by (rule arg_cong)
  then show ?thesis
    by (simp add: calculateGlobalHash_def readAll_ok [OF all])
qed

lemma set_mapSet_subset: "set (mapSet m k v) \<subseteq> insert (k, v) (set m)"
  by (induction m k v rule: mapSet.induct) auto

lemma isToken_iff: "isToken t = (t \<noteq> [] \<and> (\<forall>c \<in> set t. \<not> isSpace c))"
  by (simp add: isToken_def list_ex_iff)

lemma fieldsFrom_tokens:
  "\<forall>c \<in> set cur. \<not> isSpace c \<Longrightarrow> list_all isToken (fieldsFrom cur s)"
proof (induction s arbitrary: cur)
  case Nil
  then show ?case by (simp add: isToken_iff)
next
  case (Cons a s)
  have e: "list_all isToken (fieldsFrom [] s)" by (rule Cons.IH) simp
  show ?case
  proof (cases "isSpace a")
    case True
    have "isToken cur" if "cur \<noteq> []"
      using that Cons.prems by (simp add: isToken_iff)
    then show ?thesis using e True by simp
  next
    case False
    then have "list_all isToken (fieldsFrom (cur @ [a]) s)"
      using Cons.prems by (intro Cons.IH) auto
    then show ?thesis using False by simp
  qed
qed

lemma fieldsFrom_length:
  "sum_list (map (\<lambda>t. Suc (length t)) (fieldsFrom cur s)) \<le> Suc (length cur + length s)"
proof (induction s arbitrary: cur)
  case Nil
  then show ?case by simp
next
  case (Cons c s)
  show ?case
    using Cons [of "[]"] Cons [of "cur @ [c]"] by simp
qed

lemma fieldsFrom_word:
  "\<forall>c \<in> set w. \<not> isSpace c \<Longrightarrow> fieldsFrom cur (w @ s) = fieldsFrom (cur @ w) s"
  by (induction w arbitrary: cur) simp_all

lemma Fields_pair:
  assumes "isToken k" and "isToken v"
  shows "Fields (k @ CHR '' '' # v) = [k, v]"
proof -
  have k: "k \<noteq> []" "\<forall>c \<in> set k. \<not> isSpace c" and v: "v \<noteq> []" "\<forall>c \<in> set v. \<not> isSpace c"
    using assms by (simp_all add: isToken_iff)
  have "fieldsFrom [] (k @ CHR '' '' # v) = fieldsFrom k (CHR '' '' # v)"
    using fieldsFrom_word [OF k(2), of "[]"] by simp
  also have "\<dots> = k # fieldsFrom [] (v @ [])"
    using k(1) by (simp add: isSpace_def)
  also have "fieldsFrom [] (v @ []) = fieldsFrom v []"
    using fieldsFrom_word [OF v(2), of "[]" "[]"] by simp
  finally show ?thesis using v(1) by (simp add: Fields_def)
qed

lemma Fields_pair_props:
  assumes "Fields line = [k, v]"
  shows "isToken k \<and> isToken v \<and> length k + length v + 1 \<le> length line"
proof -
  have "isToken k" "isToken v"
    using fieldsFrom_tokens [of "[]" line] assms by (simp_all add: Fields_def)
  moreover have "length k + length v + 1 \<le> length line"
    using fieldsFrom_length [of "[]" line] assms by (simp add: Fields_def)
  ultimately show ?thesis by simp
qed

lemma hasPrefix_single: "hasPrefix (x # xs) [c] = (x = c)"
  by (simp add: hasPrefix_def)

lemma splitFrom_line:
  "c \<notin> set l \<Longrightarrow> length l + length rest < fuel \<Longrightarrow>
   splitFrom fuel [c] cur (l @ c # rest) = (cur @ l) # splitFrom (fuel - length l - 1) [c] [] rest"
proof (induction l arbitrary: fuel cur)
  case Nil
  then obtain f where "fuel = Suc f" by (cases fuel) auto
  then show ?case by (simp add: hasPrefix_single)
next
  case (Cons x l)
  then obtain f where f: "fuel = Suc f" by (cases fuel) auto
  have "splitFrom f [c] (cur @ [x]) (l @ c # rest)
          = ((cur @ [x]) @ l) # splitFrom (f - length l - 1) [c] [] rest"
    using Cons.prems f by (intro Cons.IH) auto
  then show ?case using Cons.prems f by (auto simp: hasPrefix_single)
qed

lemma splitFrom_lines:
  "\<forall>l \<in> set ls. c \<notin> set l \<Longrightarrow> length (concat (map (\<lambda>l. l @ [c]) ls)) \<le> fuel \<Longrightarrow>
   splitFrom fuel [c] [] (concat (map (\<lambda>l. l @ [c]) ls)) = ls @ [[]]"
proof (induction ls arbitrary: fuel)
  case Nil
  then show ?case by simp
next
  case (Cons l ls)
  let ?rest = "concat (map (\<lambda>l. l @ [c]) ls)"
  have "splitFrom fuel [c] [] (l @ c # ?rest)
          = ([] @ l) # splitFrom (fuel - length l - 1) [c] [] ?rest"
    using Cons.prems by (intro splitFrom_line) auto
  moreover have "splitFrom (fuel - length l - 1) [c] [] ?rest = ls @ [[]]"
    using Cons.prems by (intro Cons.IH) auto
  ultimately show ?case by simp
qed

lemma scanLines_lines:
  assumes "\<forall>l \<in> set ls. CHR 0x0A \<notin> set l \<and> length l < 65536 \<and> (l \<noteq> [] \<longrightarrow> last l \<noteq> CHR 0x0D)"
  shows "scanLines (concat (map (\<lambda>l. l @ nl) ls)) = Inr ls"
proof -
  have s: "split (concat (map (\<lambda>l. l @ nl) ls)) nl = ls @ [[]]"
    unfolding split_def nl_def using assms by (intro splitFrom_lines) auto
  have d: "map dropCR ls = ls"
    using assms by (intro map_idI) (auto simp: dropCR_def)
  have n: "\<not> list_ex (\<lambda>line. 65536 \<le> length line) ls"
    using assms by (auto simp: list_ex_iff)
  show ?thesis by (simp add: scanLines_def s d n)
qed

lemma foldl_checksumLine:
  "\<forall>k \<in> set ks. isToken k \<and> isToken (f k) \<Longrightarrow>
   foldl checksumLine acc (map (\<lambda>k. k @ CHR '' '' # f k) ks)
     = foldl (\<lambda>a k. mapSet a k (f k)) acc ks"
  by (induction ks arbitrary: acc) (simp_all add: checksumLine_def Fields_pair)

lemma map_of_foldl_mapSet:
  "map_of (foldl (\<lambda>a k. mapSet a k (f k)) acc ks) x
     = (if x \<in> set ks then Some (f x) else map_of acc x)"
  by (induction ks arbitrary: acc) (simp_all add: map_of_mapSet)

lemma base64Char_not_space: "\<not> isSpace (base64Char n)"
proof -
  let ?a = "''ABCDEFGHIJKLMNOPQRSTUVWXYZabcdefghijklmnopqrstuvwxyz0123456789+/''"
  have "base64Char n \<in> set ?a"
    unfolding base64Char_def by (rule nth_mem) simp
  moreover have "\<forall>c \<in> set ?a. \<not> isSpace c" by (simp add: isSpace_def)
  ultimately show ?thesis by blast
qed

lemma pad_not_space: "\<not> isSpace (CHR ''='')"
  by (simp add: isSpace_def)

lemma base64_not_space: "list_all (\<lambda>c. \<not> isSpace c) (base64 bs)"
  by (induction bs rule: base64.induct) (simp_all add: base64Char_not_space pad_not_space)

lemma length_base64: "length (base64 bs) = 4 * ((length bs + 2) div 3)"
proof (induction bs rule: base64.induct)
  case (1 a b c rest)
  have "(length (a # b # c # rest) + 2) div 3 = Suc ((length rest + 2) div 3)" by simp
  then show ?case using 1 by simp
qed simp_all

lemma length_sha256Round: "length (sha256Round st kw) = length st"
  by (cases "(st, kw)" rule: sha256Round.cases) (simp_all add: Let_def)

lemma length_foldl_sha256Round: "length (foldl sha256Round st kws) = length st"
  by (induction kws arbitrary: st) (simp_all add: length_sha256Round)

lemma length_sha256Block: "length (sha256Block st block) = length st"
  by (simp add: sha256Block_def length_foldl_sha256Round)

lemma length_foldl_sha256Block: "length (foldl sha256Block st blocks) = length st"
  by (induction blocks arbitrary: st) (simp_all add: length_sha256Block)

lemma length_concat_bigEndian:
  "length (concat (map (\<lambda>w. bigEndian 4 (f w)) ws)) = 4 * length ws"
  by (induction ws) (simp_all add: bigEndian_def)

lemma length_sha256: "length (sha256 content) = 32"
  by (simp add: sha256_def Let_def length_concat_bigEndian length_foldl_sha256Block
        sha256Init_def)

lemma calculateFileHash_token:
  "isToken (calculateFileHash content)" "length (calculateFileHash content) = 47"
proof -
  have "\<forall>c \<in> set (base64 (sha256 content)). \<not> isSpace c"
    using base64_not_space [of "sha256 content"] by (simp add: list_all_iff)
  moreover have "\<forall>c \<in> set ''h1:''. \<not> isSpace c" by (simp add: isSpace_def)
  ultimately show "isToken (calculateFileHash content)"
    unfolding calculateFileHash_def isToken_iff by auto
  show "length (calculateFileHash content) = 47"
    by (simp add: calculateFileHash_def length_base64 length_sha256)
qed

text \<open>What every entry read from a manifest satisfies.\<close>

lemma checksumLine_entries:
  assumes "\<forall>(k, v) \<in> set m. isToken k \<and> isToken v \<and> length k + length v + 1 < 65536"
    and "length line < 65536"
  shows "\<forall>(k, v) \<in> set (checksumLine m line).
           isToken k \<and> isToken v \<and> length k + length v + 1 < 65536"
proof (cases "\<exists>k v. Fields line = [k, v]")
  case True
  then obtain k v where kv: "Fields line = [k, v]" by blast
  have p: "isToken k \<and> isToken v \<and> length k + length v + 1 < 65536"
    using Fields_pair_props [OF kv] assms(2) by simp
  have "checksumLine m line = mapSet m k v" by (simp add: checksumLine_def kv)
  then show ?thesis using set_mapSet_subset [of m k v] assms(1) p by auto
next
  case False
  then have "checksumLine m line = m"
    by (auto simp: checksumLine_def split: list.splits)
  then show ?thesis using assms(1) by simp
qed

lemma foldl_checksumLine_entries:
  "\<forall>(k, v) \<in> set m. isToken k \<and> isToken v \<and> length k + length v + 1 < 65536 \<Longrightarrow>
   \<forall>line \<in> set lines. length line < 65536 \<Longrightarrow>
   \<forall>(k, v) \<in> set (foldl checksumLine m lines).
      isToken k \<and> isToken v \<and> length k + length v + 1 < 65536"
proof (induction lines arbitrary: m)
  case Nil
  then show ?case by simp
next
  case (Cons line lines)
  have step: "\<forall>(k, v) \<in> set (checksumLine m line).
           isToken k \<and> isToken v \<and> length k + length v + 1 < 65536"
    using Cons.prems by (intro checksumLine_entries) auto
  have rest: "\<forall>line \<in> set lines. length line < 65536"
    using Cons.prems(2) by simp
  show ?case unfolding foldl_Cons by (rule Cons.IH [OF step rest])
qed

lemma length_dropCR: "length (dropCR line) \<le> length line"
  by (simp add: dropCR_def)

lemma scanLines_short:
  assumes "scanLines content = Inr lines"
  shows "\<forall>line \<in> set lines. length line < 65536"
proof -
  define raw where "raw = (if last (split content nl) = [] then butlast (split content nl)
                           else split content nl)"
  have r: "\<not> list_ex (\<lambda>line. 65536 \<le> length line) raw" and l: "lines = map dropCR raw"
    using assms by (auto simp: scanLines_def Let_def raw_def split: if_splits)
  show ?thesis
  proof
    fix line assume "line \<in> set lines"
    then obtain x where x: "x \<in> set raw" "line = dropCR x" unfolding l by auto
    have "length x < 65536" using r x(1) by (auto simp: list_ex_iff)
    then show "length line < 65536" using length_dropCR [of x] x(2) by simp
  qed
qed

lemma readChecksumFile_entries:
  assumes "readChecksumFile fs = Inr m"
  shows "\<forall>(k, v) \<in> set m. isToken k \<and> isToken v \<and> length k + length v + 1 < 65536"
proof (cases "readFile fs ''datara.sum''")
  case (ReadOk content)
  then obtain lines where lines: "scanLines content = Inr lines"
    and m: "m = foldl checksumLine [] (drop 1 lines)"
    using assms by (auto simp: readChecksumFile_def split: sum.splits)
  have "\<forall>line \<in> set (drop 1 lines). length line < 65536"
    using scanLines_short [OF lines] by (auto dest: in_set_dropD)
  then show ?thesis unfolding m by (intro foldl_checksumLine_entries) simp_all
next
  case NotExist
  then show ?thesis using assms by (simp add: readChecksumFile_def)
next
  case ReadFailed
  then show ?thesis using assms by (simp add: readChecksumFile_def)
qed

lemma calculateGlobalHash_is_hash:
  "calculateGlobalHash fs = Inr g \<Longrightarrow> \<exists>content. g = calculateFileHash content"
  by (auto simp: calculateGlobalHash_def split: dirState.splits sum.splits)

lemma isToken_line:
  assumes "isToken t"
  shows "CHR 0x0A \<notin> set t" "t \<noteq> []" "last t \<noteq> CHR 0x0D"
proof -
  have t: "t \<noteq> []" "\<forall>c \<in> set t. \<not> isSpace c" using assms by (simp_all add: isToken_iff)
  show "CHR 0x0A \<notin> set t" using t(2) by (auto simp: isSpace_def)
  show "t \<noteq> []" by (rule t(1))
  have "last t \<in> set t" using t(1) by simp
  then show "last t \<noteq> CHR 0x0D" using t(2) by (auto simp: isSpace_def)
qed

text \<open>Reading back a manifest written for a map whose entries are tokens.\<close>

lemma read_written_manifest:
  assumes entries: "\<forall>(k, v) \<in> set m. isToken k \<and> isToken v \<and> length k + length v + 1 < 65536"
    and g: "isToken g" "length g < 65536"
    and ks: "set ks = fst ` set m"
    and rd: "readFile fs ''datara.sum'' = ReadOk (manifestText m g ks)"
  shows "\<exists>m'. readChecksumFile fs = Inr m' \<and> map_of m' = map_of m"
proof -
  let ?line = "\<lambda>k. k @ CHR '' '' # mapGet m k"
  have val: "(k, mapGet m k) \<in> set m" if "k \<in> set ks" for k
  proof -
    from that ks have "map_of m k \<noteq> None" by (simp add: map_of_eq_None_iff)
    then obtain v where "map_of m k = Some v" by blast
    then show ?thesis by (auto simp: mapGet_def dest: map_of_SomeD)
  qed
  have tok: "isToken k \<and> isToken (mapGet m k) \<and> length k + length (mapGet m k) + 1 < 65536"
    if "k \<in> set ks" for k
    using val [OF that] entries by auto
  have mt: "manifestText m g ks = concat (map (\<lambda>l. l @ nl) (g # map ?line ks))"
    by (simp add: manifestText_def nl_def comp_def)
  have lines: "\<forall>l \<in> set (g # map ?line ks).
      CHR 0x0A \<notin> set l \<and> length l < 65536 \<and> (l \<noteq> [] \<longrightarrow> last l \<noteq> CHR 0x0D)"
  proof
    fix l assume "l \<in> set (g # map ?line ks)"
    then consider "l = g" | k where "k \<in> set ks" "l = ?line k" by auto
    then show "CHR 0x0A \<notin> set l \<and> length l < 65536 \<and> (l \<noteq> [] \<longrightarrow> last l \<noteq> CHR 0x0D)"
    proof cases
      case 1
      then show ?thesis using g isToken_line [OF g(1)] by simp
    next
      case 2
      have k: "isToken k" and v: "isToken (mapGet m k)"
        and len: "length k + length (mapGet m k) + 1 < 65536"
        using tok [OF 2(1)] by simp_all
      show ?thesis
        unfolding 2(2) using isToken_line [OF k] isToken_line [OF v] len
        by (simp add: isSpace_def)
    qed
  qed
  have scan: "scanLines (manifestText m g ks) = Inr (g # map ?line ks)"
    unfolding mt using lines by (rule scanLines_lines)
  define m' where "m' = foldl checksumLine [] (map ?line ks)"
  have m'1: "m' = foldl (\<lambda>a k. mapSet a k (mapGet m k)) [] ks"
    unfolding m'_def by (rule foldl_checksumLine) (use tok in auto)
  have "map_of m' x = map_of m x" for x
  proof (cases "x \<in> set ks")
    case True
    then have "(x, mapGet m x) \<in> set m" by (rule val)
    moreover from True ks have "map_of m x \<noteq> None" by (simp add: map_of_eq_None_iff)
    ultimately show ?thesis using True
      by (auto simp: m'1 map_of_foldl_mapSet mapGet_def)
  next
    case False
    then have "map_of m x = None" using ks by (simp add: map_of_eq_None_iff)
    then show ?thesis using False by (simp add: m'1 map_of_foldl_mapSet)
  qed
  then have "map_of m' = map_of m" by (rule ext)
  moreover have "readChecksumFile fs = Inr m'"
    by (simp add: readChecksumFile_def rd scan m'_def)
  ultimately show ?thesis by blast
qed

lemma updateChecksums_readback:
  assumes ord: "iterationOrder ord"
    and before: "readChecksumFile fs = Inr m"
    and name: "isToken (Base newFile)" "length (Base newFile) < 65000"
    and upd: "updateChecksums ord newFile content fs = Inr fs'"
  shows "\<exists>m'. readChecksumFile fs' = Inr m'
              \<and> map_of m' = (map_of m)(Base newFile \<mapsto> calculateFileHash content)"
proof -
  let ?m = "mapSet m (Base newFile) (calculateFileHash content)"
  from upd before obtain g where g: "calculateGlobalHash fs = Inr g"
    and w: "writeChecksumFile ord ?m g fs = Inr fs'"
    by (auto simp: updateChecksums_def Let_def split: sum.splits)
  let ?ks = "sort (map fst (ord ChecksumNames ?m))"
  have rd: "readFile fs' ''datara.sum'' = ReadOk (manifestText ?m g ?ks)"
    using w by (auto simp: writeChecksumFile_def Let_def dest: readFile_writeFile)
  obtain c where "g = calculateFileHash c" using calculateGlobalHash_is_hash [OF g] by blast
  then have gt: "isToken g" "length g < 65536" by (simp_all add: calculateFileHash_token)
  have ks: "set ?ks = fst ` set ?m" by (simp add: set_ord [OF ord])
  have entries: "\<forall>(k, v) \<in> set ?m. isToken k \<and> isToken v \<and> length k + length v + 1 < 65536"
    using set_mapSet_subset [of m "Base newFile" "calculateFileHash content"]
      readChecksumFile_entries [OF before] name
    by (auto simp: calculateFileHash_token)
  from read_written_manifest [OF entries gt ks rd]
  show ?thesis by (simp add: map_of_mapSet)
qed

lemma example_update:
  "updateChecksums (\<lambda>site. id) ''migrations/a.sql'' ''x''
     (DirEntries [(''datara.sum'', File M), (''a.sql'', File ''x'')])
   = (case readChecksumFile (DirEntries [(''datara.sum'', File M), (''a.sql'', File ''x'')]) of
        Inl e \<Rightarrow> Inl e
      | Inr m \<Rightarrow>
          Inr (DirEntries
                 [(''datara.sum'',
                   File (manifestText (mapSet m ''a.sql'' (calculateFileHash ''x''))
                           (calculateFileHash ''x'')
                           (sort (map fst (mapSet m ''a.sql'' (calculateFileHash ''x'')))))),
                  (''a.sql'', File ''x'')]))"
proof -
  have b: "Base ''migrations/a.sql'' = ''a.sql''" by code_simp
  have n: "sqlFilenames [(''datara.sum'', File M), (''a.sql'', File ''x'')] = [''a.sql'']"
    by code_simp
  have g: "calculateGlobalHash (DirEntries [(''datara.sum'', File M), (''a.sql'', File ''x'')])
             = Inr (calculateFileHash ''x'')"
    by (simp add: calculateGlobalHash_def n readFile_def)
  show ?thesis
    by (simp add: updateChecksums_def Let_def b g writeChecksumFile_def writeFile_def
          split: sum.splits)
qed

end
